theory Spec2Isabelle
  imports Main "HOL-Library.AList"
begin

section \<open>Platform values: strings, errors, URLs\<close>

text \<open>
  The worker is TypeScript on a JavaScript runtime. An optional string property
  (\<^verbatim>\<open>SELFHOSTED_URL?: string\<close>) is a \<open>string option\<close>, \<open>None\<close> being
  \<^verbatim>\<open>undefined\<close>. The source tests such values for truthiness (\<^verbatim>\<open>!env.SELFHOSTED_URL\<close>):
  \<^verbatim>\<open>undefined\<close> and the empty string are falsy, every other string is truthy.
\<close>

definition falsy :: "string option \<Rightarrow> bool" where
  "falsy v = (case v of None \<Rightarrow> True | Some s \<Rightarrow> s = [])"

text \<open>
  Exceptions are values. Every constructor carries the \<^verbatim>\<open>message\<close> of the
  JavaScript error object; \<open>TimeoutError\<close> is the DOMException an expired
  \<^verbatim>\<open>AbortSignal.timeout\<close> rejects a fetch with.
\<close>

datatype js_error =
    TypeError string
  | RangeError string
  | TimeoutError string
  | SyntaxError string
  | Error string

fun error_message :: "js_error \<Rightarrow> string" where
  "error_message (TypeError m) = m"
| "error_message (RangeError m) = m"
| "error_message (TimeoutError m) = m"
| "error_message (SyntaxError m) = m"
| "error_message (Error m) = m"

text \<open>
  The result of awaiting an asynchronous function: it resolves, it rejects, or it never
  settles.
\<close>

datatype 'a outcome = Returns 'a | Throws js_error | Hangs

text \<open>\<^verbatim>\<open>s.replace(/\/$/, '')\<close>: one slash at the very end of the string is removed.\<close>

definition strip_trailing_slash :: "string \<Rightarrow> string" where
  "strip_trailing_slash s = (if s \<noteq> [] \<and> last s = CHR ''/'' then butlast s else s)"

text \<open>
  The runtime's \<^verbatim>\<open>URL\<close> class, for hierarchical URLs written
  \<^verbatim>\<open>scheme://authority[path][?query][#fragment]\<close>. \<open>protocol\<close> carries the
  trailing colon as the API reports it, \<open>host\<close> is the authority (host name and
  optional port), \<open>search\<close> and \<open>hash\<close> hold the raw query and fragment with
  their leading delimiter.

  \<open>URL_parse\<close> splits the string and rewrites nothing, where the runtime's parser
  lower-cases scheme and host, drops a default port, removes dot segments,
  percent-encodes, and accepts a special scheme without the two slashes. The two agree
  on the strings that the parser leaves as they are (for \<^verbatim>\<open>http\<close> and
  \<^verbatim>\<open>https\<close> these are described by \<open>normal_form_url\<close> below), and on the strings
  with no scheme at all (no colon after a letter and scheme characters), where
  \<^verbatim>\<open>new URL(s)\<close> throws a TypeError and \<open>URL_parse\<close> returns \<open>None\<close>.
  Results that depend on the parser are stated for such strings only.
\<close>

record url =
  protocol :: string
  host :: string
  pathname :: string
  search :: string
  hash :: string

definition alpha_char :: "char \<Rightarrow> bool" where
  "alpha_char c = (let n = (of_char c :: nat) in
     (65 \<le> n \<and> n \<le> 90) \<or> (97 \<le> n \<and> n \<le> 122))"

definition scheme_char :: "char \<Rightarrow> bool" where
  "scheme_char c = (let n = (of_char c :: nat) in
     alpha_char c \<or> (48 \<le> n \<and> n \<le> 57)
     \<or> c = CHR ''+'' \<or> c = CHR ''-'' \<or> c = CHR ''.'')"

definition authority_end :: "char \<Rightarrow> bool" where
  "authority_end c = (c = CHR ''/'' \<or> c = CHR ''?'' \<or> c = CHR ''#'')"

definition path_end :: "char \<Rightarrow> bool" where
  "path_end c = (c = CHR ''?'' \<or> c = CHR ''#'')"

definition URL_parse :: "string \<Rightarrow> url option" where
  "URL_parse s =
     (let scheme = takeWhile (\<lambda>c. c \<noteq> CHR '':'') s;
          rest = dropWhile (\<lambda>c. c \<noteq> CHR '':'') s;
          after = drop 3 rest;
          auth = takeWhile (\<lambda>c. \<not> authority_end c) after;
          tail = dropWhile (\<lambda>c. \<not> authority_end c) after;
          path = takeWhile (\<lambda>c. \<not> path_end c) tail;
          tail2 = dropWhile (\<lambda>c. \<not> path_end c) tail
      in if scheme = [] \<or> \<not> alpha_char (hd scheme) \<or> \<not> list_all scheme_char scheme
            \<or> take 3 rest \<noteq> ''://'' \<or> auth = []
         then None
         else Some \<lparr> protocol = scheme @ '':'',
                     host = auth,
                     pathname = (if path = [] then ''/'' else path),
                     search = takeWhile (\<lambda>c. c \<noteq> CHR ''#'') tail2,
                     hash = dropWhile (\<lambda>c. c \<noteq> CHR ''#'') tail2 \<rparr>)"

text \<open>\<^verbatim>\<open>url.toString()\<close>, the serialised URL: the parts one after the other. It is
  the runtime's serialisation when the parts are the ones the runtime's parser holds.\<close>

definition href :: "url \<Rightarrow> string" where
  "href u = protocol u @ ''//'' @ host u @ pathname u @ search u @ hash u"

text \<open>
  The \<^verbatim>\<open>url.protocol = p\<close> setter. The URL standard refuses to move a URL between a
  special scheme and a non-special one; the assignment is then silently ignored.
\<close>

definition special_scheme :: "string \<Rightarrow> bool" where
  "special_scheme p = (p \<in> set [''ftp:'', ''file:'', ''http:'', ''https:'', ''ws:'', ''wss:''])"

definition set_protocol :: "string \<Rightarrow> url \<Rightarrow> url" where
  "set_protocol p u =
     (if special_scheme (protocol u) = special_scheme p then u\<lparr>protocol := p\<rparr> else u)"

text \<open>
  \<^verbatim>\<open>new URL(rel, base)\<close>. The base is parsed first and a base that does not parse
  throws. A reference that begins with two slashes is scheme-relative: it keeps only the
  base's scheme and takes its authority from the reference itself (for a special scheme
  the parser skips any further slashes before the authority, and an empty authority is a
  failure). A reference that begins with one slash replaces the base's path, query and
  fragment. Any other reference is an absolute URL or is merged with the directory of the
  base path (dot segments are not removed here).
\<close>

definition url_tail :: "url \<Rightarrow> string \<Rightarrow> url" where
  "url_tail u t =
     (let path = takeWhile (\<lambda>c. \<not> path_end c) t;
          tail2 = dropWhile (\<lambda>c. \<not> path_end c) t
      in u\<lparr> pathname := (if path = [] then ''/'' else path),
             search := takeWhile (\<lambda>c. c \<noteq> CHR ''#'') tail2,
             hash := dropWhile (\<lambda>c. c \<noteq> CHR ''#'') tail2 \<rparr>)"

definition directory :: "string \<Rightarrow> string" where
  "directory p = rev (dropWhile (\<lambda>c. c \<noteq> CHR ''/'') (rev p))"

definition URL_resolve_in :: "string \<Rightarrow> url \<Rightarrow> url option" where
  "URL_resolve_in rel base =
     (if take 2 rel = ''//'' then
        (let rest = (if special_scheme (protocol base)
                     then dropWhile (\<lambda>c. c = CHR ''/'') rel else drop 2 rel);
             auth = takeWhile (\<lambda>c. \<not> authority_end c) rest;
             tail = dropWhile (\<lambda>c. \<not> authority_end c) rest
         in if auth = [] \<and> special_scheme (protocol base) then None
            else Some (url_tail (base\<lparr>host := auth\<rparr>) tail))
      else if take 1 rel = ''/'' then Some (url_tail base rel)
      else (case URL_parse rel of
              Some u \<Rightarrow> Some u
            | None \<Rightarrow>
               (let t = url_tail base rel;
                    p = takeWhile (\<lambda>c. \<not> path_end c) rel
                in Some (if p = []
                         then t\<lparr> pathname := pathname base,
                                 search := (if search t = [] then search base else search t) \<rparr>
                         else t\<lparr> pathname := directory (pathname base) @ p \<rparr>))))"

definition URL_resolve :: "string \<Rightarrow> string \<Rightarrow> url option" where
  "URL_resolve rel base =
     (case URL_parse base of None \<Rightarrow> None | Some b \<Rightarrow> URL_resolve_in rel b)"

text \<open>
  The \<^verbatim>\<open>url.search\<close> getter: an empty query (a lone question mark) reads as the
  empty string.
\<close>

definition URL_search :: "url \<Rightarrow> string" where
  "URL_search u = (if search u = ''?'' then [] else search u)"

section \<open>Config Resolver\<close>

record MoltbotEnv =
  DEPLOYMENT_MODE :: "string option"
  SELFHOSTED_URL :: "string option"
  SELFHOSTED_WS_URL :: "string option"
  SELFHOSTED_AUTH_TOKEN :: "string option"
  MOLTBOT_GATEWAY_TOKEN :: "string option"
  CF_ACCESS_TEAM_DOMAIN :: "string option"
  CF_ACCESS_AUD :: "string option"
  DEV_MODE :: "string option"

record SelfHostedConfig =
  baseUrl :: string
  wsUrl :: string
  authToken :: "string option"

text \<open>
  \<open>buildSelfHostedConfig\<close>: \<open>Inr None\<close> is the \<^verbatim>\<open>null\<close> return, \<open>Inl\<close> the
  TypeError that \<^verbatim>\<open>new URL(baseUrl)\<close> throws on a string it cannot parse.
\<close>

definition buildSelfHostedConfig :: "MoltbotEnv \<Rightarrow> js_error + SelfHostedConfig option" where
  "buildSelfHostedConfig env =
     (if DEPLOYMENT_MODE env \<noteq> Some ''selfhosted'' \<or> falsy (SELFHOSTED_URL env) then Inr None
      else
        let base = strip_trailing_slash (the (SELFHOSTED_URL env)) in
        if \<not> falsy (SELFHOSTED_WS_URL env)
        then Inr (Some \<lparr> baseUrl = base, wsUrl = the (SELFHOSTED_WS_URL env),
                         authToken = SELFHOSTED_AUTH_TOKEN env \<rparr>)
        else (case URL_parse base of
                None \<Rightarrow> Inl (TypeError ''Invalid URL'')
              | Some u \<Rightarrow>
                  let u' = set_protocol (if protocol u = ''https:'' then ''wss:'' else ''ws:'') u
                  in Inr (Some \<lparr> baseUrl = base, wsUrl = strip_trailing_slash (href u'),
                                   authToken = SELFHOSTED_AUTH_TOKEN env \<rparr>)))"

section \<open>Headers, requests, responses\<close>

text \<open>
  A \<^verbatim>\<open>Headers\<close> object is an association list keyed by the lower-cased header
  name: \<^verbatim>\<open>get\<close>, \<^verbatim>\<open>set\<close> and \<^verbatim>\<open>delete\<close> lower-case the name they are
  given, so \<^verbatim>\<open>delete('host')\<close> removes what \<^verbatim>\<open>get('Host')\<close> would read.
\<close>

type_synonym headers = "(string \<times> string) list"

definition lower_char :: "char \<Rightarrow> char" where
  "lower_char c =
     (case map_of (zip ''ABCDEFGHIJKLMNOPQRSTUVWXYZ'' ''abcdefghijklmnopqrstuvwxyz'') c of
        Some l \<Rightarrow> l
      | None \<Rightarrow> c)"

definition toLowerCase :: "string \<Rightarrow> string" where
  "toLowerCase s = map lower_char s"

definition headers_get :: "headers \<Rightarrow> string \<Rightarrow> string option" where
  "headers_get hs name = map_of hs (toLowerCase name)"

definition headers_set :: "string \<Rightarrow> string \<Rightarrow> headers \<Rightarrow> headers" where
  "headers_set name v hs = AList.update (toLowerCase name) v hs"

definition headers_delete :: "string \<Rightarrow> headers \<Rightarrow> headers" where
  "headers_delete name hs = AList.delete (toLowerCase name) hs"

text \<open>
  An inbound \<^verbatim>\<open>Request\<close>. \<open>req_url\<close> is \<^verbatim>\<open>new URL(request.url)\<close>, which
  cannot fail on the URL of a request the runtime delivered. A body is the text of the
  stream, \<open>None\<close> for \<^verbatim>\<open>null\<close>.
\<close>

record request =
  req_url :: url
  req_method :: string
  req_headers :: headers
  req_body :: "string option"

text \<open>
  A \<^verbatim>\<open>Response\<close>, both what \<^verbatim>\<open>fetch\<close> resolves to and what a handler returns.
  \<open>webSocket\<close> is the runtime's extension: the socket handle of a protocol switch.
\<close>

record response =
  status :: nat
  statusText :: string
  resp_headers :: headers
  body :: "string option"
  webSocket :: "nat option"

definition ok :: "response \<Rightarrow> bool" where
  "ok r = (200 \<le> status r \<and> status r \<le> 299)"

text \<open>\<^verbatim>\<open>await response.text()\<close>: a null body reads as the empty string.\<close>

definition text_of :: "response \<Rightarrow> string" where
  "text_of r = (case body r of None \<Rightarrow> [] | Some b \<Rightarrow> b)"

text \<open>
  JSON values, and the runtime's \<^verbatim>\<open>JSON.stringify\<close> and \<^verbatim>\<open>JSON.parse\<close> as
  parameters of the model (\<open>JSON_parse\<close> returns \<open>None\<close> where the runtime throws
  a SyntaxError).
\<close>

datatype json =
    JNull
  | JBool bool
  | JNumber int
  | JString string
  | JArray "json list"
  | JObject "(string \<times> json) list"

record json_api =
  JSON_stringify :: "json \<Rightarrow> string"
  JSON_parse :: "string \<Rightarrow> json option"

section \<open>The network seen through fetch\<close>

text \<open>
  The argument of one \<^verbatim>\<open>fetch(url, init)\<close> call. \<open>f_signal\<close> is the delay in
  milliseconds of \<^verbatim>\<open>AbortSignal.timeout\<close>, \<open>None\<close> when no signal is passed. The
  defaults of an omitted field are \<^verbatim>\<open>GET\<close>, no body and \<^verbatim>\<open>redirect: 'follow'\<close>.
\<close>

datatype redirect_mode = Follow | Manual

record fetch_init =
  f_url :: string
  f_method :: string
  f_headers :: headers
  f_body :: "string option"
  f_redirect :: redirect_mode
  f_signal :: "nat option"

text \<open>
  What the other side does with a request: it answers after some milliseconds, the
  connection fails, or nothing ever comes back. The answer is the response as
  \<^verbatim>\<open>fetch\<close> delivers it under the request's redirect mode. \<open>fetch\<close> resolves
  with an answer that arrives no later than the signal's deadline, rejects with a
  TimeoutError when the deadline passes first, rejects with a TypeError on a connection
  failure (or a URL it cannot use), and without a signal waits for ever on a silent peer.
\<close>

datatype reply = Reply nat response | Refused string | Silence

type_synonym network = "fetch_init \<Rightarrow> reply"

definition fetch :: "network \<Rightarrow> fetch_init \<Rightarrow> response outcome" where
  "fetch net rq =
     (case net rq of
        Reply t r \<Rightarrow>
          (case f_signal rq of
             None \<Rightarrow> Returns r
           | Some d \<Rightarrow> if t \<le> d then Returns r
                       else Throws (TimeoutError ''The operation was aborted due to timeout''))
      | Refused m \<Rightarrow> Throws (TypeError m)
      | Silence \<Rightarrow>
          (case f_signal rq of
             None \<Rightarrow> Hangs
           | Some d \<Rightarrow> Throws (TimeoutError ''The operation was aborted due to timeout'')))"

section \<open>Health Prober\<close>

definition buildAuthHeaders :: "SelfHostedConfig \<Rightarrow> headers" where
  "buildAuthHeaders config =
     (if \<not> falsy (authToken config)
      then headers_set ''X-Internal-Auth'' (the (authToken config)) []
      else [])"

definition health_request :: "SelfHostedConfig \<Rightarrow> fetch_init" where
  "health_request config =
     \<lparr> f_url = baseUrl config @ ''/health'', f_method = ''GET'',
       f_headers = buildAuthHeaders config, f_body = None,
       f_redirect = Follow, f_signal = Some 5000 \<rparr>"

definition checkSelfHostedHealth :: "network \<Rightarrow> SelfHostedConfig \<Rightarrow> bool outcome" where
  "checkSelfHostedHealth net config =
     (case fetch net (health_request config) of
        Returns r \<Rightarrow> Returns (ok r)
      | Throws err \<Rightarrow> Returns False
      | Hangs \<Rightarrow> Hangs)"

section \<open>HTTP Relay\<close>

text \<open>
  An asynchronous function that calls \<open>fetch\<close> is modelled with the list of the
  calls it issued next to its outcome.
\<close>

type_synonym 'a traced = "fetch_init list \<times> 'a outcome"

definition relay_headers :: "SelfHostedConfig \<Rightarrow> request \<Rightarrow> headers" where
  "relay_headers config request =
     (let h0 = req_headers request;
          h1 = (if \<not> falsy (authToken config)
                then headers_set ''X-Internal-Auth'' (the (authToken config)) h0 else h0);
          h2 = headers_delete ''host'' h1;
          cookies = headers_get (req_headers request) ''Cookie''
      in if \<not> falsy cookies then headers_set ''Cookie'' (the cookies) h2 else h2)"

definition relay_request :: "SelfHostedConfig \<Rightarrow> request \<Rightarrow> url \<Rightarrow> fetch_init" where
  "relay_request config request targetUrl =
     \<lparr> f_url = href targetUrl, f_method = req_method request,
       f_headers = relay_headers config request, f_body = req_body request,
       f_redirect = Manual, f_signal = None \<rparr>"

text \<open>
  The answer of the relay's \<^verbatim>\<open>catch\<close> block. The block also catches the RangeError
  that \<^verbatim>\<open>new Response(body, {status})\<close> throws for a status outside 200 to 599.
\<close>

definition relay_error_response :: "json_api \<Rightarrow> js_error \<Rightarrow> response" where
  "relay_error_response api err =
     \<lparr> status = 502, statusText = [],
       resp_headers = [(''content-type'', ''application/json'')],
       body = Some (JSON_stringify api (JObject
         [(''error'', JString ''Failed to connect to self-hosted server''),
          (''details'', JString (error_message err))])),
       webSocket = None \<rparr>"

definition proxySelfHostedRequest ::
  "json_api \<Rightarrow> network \<Rightarrow> SelfHostedConfig \<Rightarrow> request \<Rightarrow> response traced" where
  "proxySelfHostedRequest api net config request =
     (let url = req_url request in
      case URL_resolve (pathname url @ URL_search url) (baseUrl config) of
        None \<Rightarrow> ([], Throws (TypeError ''Invalid URL''))
      | Some targetUrl \<Rightarrow>
          (let rq = relay_request config request targetUrl in
           case fetch net rq of
             Returns r \<Rightarrow>
               if 200 \<le> status r \<and> status r \<le> 599 then
                 ([rq], Returns
                    \<lparr> status = status r, statusText = statusText r,
                      resp_headers =
                        headers_set ''X-Debug-Path'' (pathname url)
                          (headers_set ''X-Worker-Debug'' ''proxy-to-selfhosted''
                             (resp_headers r)),
                      body = body r, webSocket = None \<rparr>)
               else ([rq], Returns (relay_error_response api
                       (RangeError ''Responses may only be constructed with status codes in the range 200 to 599, inclusive.'')))
           | Throws err \<Rightarrow> ([rq], Returns (relay_error_response api err))
           | Hangs \<Rightarrow> ([rq], Hangs)))"

section \<open>WebSocket Relay\<close>

text \<open>
  \<open>ServerWs\<close> is the worker's end of the pair whose other end goes to the client,
  \<open>BackendWs\<close> the socket of the backend's upgrade response. The relay's setup is
  recorded as the fetch it issued, the sockets it accepted and the listeners it
  registered; \<open>ws_transform\<close> and \<open>ws_host\<close> are what the listeners' closures
  capture (\<^verbatim>\<open>transformMessage\<close> and \<^verbatim>\<open>url.host\<close>). A transform returns
  \<open>Inl\<close> where the JavaScript function throws.
\<close>

datatype socket = ServerWs | BackendWs

datatype event_type = MessageEvent | CloseEvent | ErrorEvent

type_synonym transform = "string \<Rightarrow> string \<Rightarrow> js_error + string"

record ws_relay =
  ws_calls :: "fetch_init list"
  ws_accepted :: "socket list"
  ws_listeners :: "(socket \<times> event_type) list"
  ws_transform :: "transform option"
  ws_host :: string
  ws_result :: "response outcome"

definition upgrade_request :: "SelfHostedConfig \<Rightarrow> request \<Rightarrow> url \<Rightarrow> fetch_init" where
  "upgrade_request config request targetUrl =
     \<lparr> f_url = href targetUrl, f_method = ''GET'',
       f_headers = (if \<not> falsy (authToken config)
                    then headers_set ''X-Internal-Auth'' (the (authToken config))
                           (req_headers request)
                    else req_headers request),
       f_body = None, f_redirect = Follow, f_signal = None \<rparr>"

definition no_relay :: "fetch_init list \<Rightarrow> response outcome \<Rightarrow> ws_relay" where
  "no_relay cs res =
     \<lparr> ws_calls = cs, ws_accepted = [], ws_listeners = [], ws_transform = None,
       ws_host = [], ws_result = res \<rparr>"

definition proxySelfHostedWebSocket ::
  "json_api \<Rightarrow> network \<Rightarrow> nat \<Rightarrow> SelfHostedConfig \<Rightarrow> request \<Rightarrow> transform option
     \<Rightarrow> ws_relay" where
  "proxySelfHostedWebSocket api net clientWs config request transformMessage =
     (let url = req_url request in
      case URL_resolve (pathname url @ URL_search url) (wsUrl config) of
        None \<Rightarrow> no_relay [] (Throws (TypeError ''Invalid URL''))
      | Some targetUrl \<Rightarrow>
          (let rq = upgrade_request config request targetUrl in
           case fetch net rq of
             Throws err \<Rightarrow>
               no_relay [rq] (Returns
                  \<lparr> status = 502, statusText = [],
                    resp_headers = [(''content-type'', ''application/json'')],
                    body = Some (JSON_stringify api (JObject
                      [(''error'', JString ''Failed to establish WebSocket connection''),
                       (''details'', JString (error_message err))])),
                    webSocket = None \<rparr>)
           | Hangs \<Rightarrow> no_relay [rq] Hangs
           | Returns backendResponse \<Rightarrow>
               if status backendResponse \<noteq> 101 then
                 no_relay [rq] (Returns
                    \<lparr> status = 502, statusText = [],
                      resp_headers = [(''content-type'', ''text/plain;charset=UTF-8'')],
                      body = Some ''WebSocket upgrade failed'', webSocket = None \<rparr>)
               else (case webSocket backendResponse of
                  None \<Rightarrow>
                    no_relay [rq] (Returns
                      \<lparr> status = 502, statusText = [],
                        resp_headers = [(''content-type'', ''text/plain;charset=UTF-8'')],
                        body = Some ''WebSocket not available'', webSocket = None \<rparr>)
                | Some backendWs \<Rightarrow>
                    \<lparr> ws_calls = [rq],
                      ws_accepted = [ServerWs, BackendWs],
                      ws_listeners =
                        [(ServerWs, MessageEvent), (BackendWs, MessageEvent),
                         (ServerWs, CloseEvent), (BackendWs, CloseEvent),
                         (ServerWs, ErrorEvent), (BackendWs, ErrorEvent)],
                      ws_transform = transformMessage,
                      ws_host = host url,
                      ws_result = Returns
                        \<lparr> status = 101, statusText = [], resp_headers = [],
                          body = None, webSocket = Some clientWs \<rparr> \<rparr>)))"

text \<open>
  The listeners. An event is a frame, a close with its code and reason, or an error; a
  listener's run is the list of calls it made on the sockets and the exception that
  ended it, if any. A frame is a string (text) or bytes (binary):
  \<^verbatim>\<open>typeof data === 'string'\<close> holds of \<open>TextFrame\<close> only.

  \<^verbatim>\<open>socket.close(code, reason)\<close> throws a TypeError for a code that may not be sent
  in a close frame: a code outside 1000 to 4999, and the reserved codes 1005 (no status
  received), 1006 (abnormal closure) and 1015. A close event carries 1005 when the peer
  closed without a status and 1006 when the connection was lost.
\<close>

datatype frame = TextFrame string | BinaryFrame "nat list"

datatype ready_state = CONNECTING | OPEN | CLOSING | CLOSED

datatype ws_event = OnMessage frame | OnClose nat string | OnError

datatype ws_call = Send socket frame | Close socket nat string

type_synonym listener_run = "ws_call list \<times> js_error option"

definition close_accepted :: "nat \<Rightarrow> bool" where
  "close_accepted code =
     (1000 \<le> code \<and> code < 5000 \<and> code \<notin> set [1005, 1006, 1015])"

definition ws_close :: "socket \<Rightarrow> nat \<Rightarrow> string \<Rightarrow> listener_run" where
  "ws_close sock code reason =
     (if close_accepted code then ([Close sock code reason], None)
      else ([], Some (TypeError ''Invalid WebSocket close code'')))"

definition event_type_of :: "ws_event \<Rightarrow> event_type" where
  "event_type_of ev =
     (case ev of OnMessage d \<Rightarrow> MessageEvent | OnClose c r \<Rightarrow> CloseEvent
               | OnError \<Rightarrow> ErrorEvent)"

definition serverWs_message :: "(socket \<Rightarrow> ready_state) \<Rightarrow> frame \<Rightarrow> listener_run" where
  "serverWs_message readyState d =
     (if readyState BackendWs = OPEN then ([Send BackendWs d], None) else ([], None))"

definition backendWs_message ::
  "transform option \<Rightarrow> string \<Rightarrow> (socket \<Rightarrow> ready_state) \<Rightarrow> frame \<Rightarrow> listener_run" where
  "backendWs_message transformMessage h readyState d =
     (case (d, transformMessage) of
        (TextFrame s, Some f) \<Rightarrow>
          (case f s h of
             Inl err \<Rightarrow> ([], Some err)
           | Inr s' \<Rightarrow>
               if readyState ServerWs = OPEN then ([Send ServerWs (TextFrame s')], None)
               else ([], None))
      | _ \<Rightarrow>
          if readyState ServerWs = OPEN then ([Send ServerWs d], None) else ([], None))"

definition listener ::
  "ws_relay \<Rightarrow> (socket \<Rightarrow> ready_state) \<Rightarrow> socket \<Rightarrow> ws_event \<Rightarrow> listener_run" where
  "listener relay readyState sock ev =
     (case (sock, ev) of
        (ServerWs, OnMessage d) \<Rightarrow> serverWs_message readyState d
      | (BackendWs, OnMessage d) \<Rightarrow>
          backendWs_message (ws_transform relay) (ws_host relay) readyState d
      | (ServerWs, OnClose code reason) \<Rightarrow> ws_close BackendWs code reason
      | (BackendWs, OnClose code reason) \<Rightarrow> ws_close ServerWs code reason
      | (ServerWs, OnError) \<Rightarrow> ws_close BackendWs 1011 ''Client error''
      | (BackendWs, OnError) \<Rightarrow> ws_close ServerWs 1011 ''Backend error'')"

text \<open>
  Delivering an event to a socket runs the listener registered for that socket and event
  type; with none registered nothing happens.
\<close>

definition dispatch ::
  "ws_relay \<Rightarrow> (socket \<Rightarrow> ready_state) \<Rightarrow> socket \<Rightarrow> ws_event \<Rightarrow> listener_run" where
  "dispatch relay readyState sock ev =
     (if (sock, event_type_of ev) \<in> set (ws_listeners relay)
      then listener relay readyState sock ev
      else ([], None))"

text \<open>
  A frame that arrives on a socket. The runtime runs the message listener; an exception
  that escapes the listener is reported as an error event on the same socket, so that
  the error listener registered there runs next.
\<close>

definition receive_frame ::
  "ws_relay \<Rightarrow> (socket \<Rightarrow> ready_state) \<Rightarrow> socket \<Rightarrow> frame \<Rightarrow> ws_call list" where
  "receive_frame relay readyState sock d =
     (case dispatch relay readyState sock (OnMessage d) of
        (calls, None) \<Rightarrow> calls
      | (calls, Some err) \<Rightarrow> calls @ fst (dispatch relay readyState sock OnError))"

section \<open>Remote Exec Bridge\<close>

text \<open>
  A number interpolated into a template string is printed in decimal. The timeout is a
  count of milliseconds; the callers pass the constants 20000 and 5000.
\<close>

fun decimal :: "nat \<Rightarrow> string" where
  "decimal n =
     (if n < 10 then [''0123456789'' ! n]
      else decimal (n div 10) @ [''0123456789'' ! (n mod 10)])"

definition exec_request ::
  "json_api \<Rightarrow> SelfHostedConfig \<Rightarrow> string \<Rightarrow> nat \<Rightarrow> fetch_init" where
  "exec_request api config command timeoutMs =
     \<lparr> f_url = baseUrl config @ ''/api/internal/exec'', f_method = ''POST'',
       f_headers =
         (let h = headers_set ''Content-Type'' ''application/json'' []
          in if \<not> falsy (authToken config)
             then headers_set ''X-Internal-Auth'' (the (authToken config)) h else h),
       f_body = Some (JSON_stringify api (JObject
         [(''command'', JString command), (''timeout'', JNumber (int timeoutMs))])),
       f_redirect = Follow, f_signal = Some (timeoutMs + 5000) \<rparr>"

definition executeSelfHostedCommand ::
  "json_api \<Rightarrow> network \<Rightarrow> SelfHostedConfig \<Rightarrow> string \<Rightarrow> nat \<Rightarrow> json traced" where
  "executeSelfHostedCommand api net config command timeoutMs =
     (let rq = exec_request api config command timeoutMs in
      case fetch net rq of
        Returns r \<Rightarrow>
          if \<not> ok r
          then ([rq], Throws (Error (''Command execution failed: '' @ decimal (status r)
                                      @ '' '' @ text_of r)))
          else (case JSON_parse api (text_of r) of
                  None \<Rightarrow> ([rq], Throws (SyntaxError ''Unexpected token''))
                | Some j \<Rightarrow> ([rq], Returns j))
      | Throws err \<Rightarrow> ([rq], Throws err)
      | Hangs \<Rightarrow> ([rq], Hangs))"

section \<open>Routes\<close>

text \<open>\<^verbatim>\<open>s.includes(sub)\<close>, \<^verbatim>\<open>s.startsWith(p)\<close>, \<^verbatim>\<open>xs.join(sep)\<close> and
  \<^verbatim>\<open>s.replace(pat, rep)\<close> with a string pattern, which replaces the first occurrence
  only (the replacement is taken literally: the names joined here hold no dollar sign).\<close>

fun str_includes :: "string \<Rightarrow> string \<Rightarrow> bool" where
  "str_includes [] sub = (sub = [])"
| "str_includes (c # cs) sub = (take (length sub) (c # cs) = sub \<or> str_includes cs sub)"

definition startsWith :: "string \<Rightarrow> string \<Rightarrow> bool" where
  "startsWith s p = (take (length p) s = p)"

fun join :: "string \<Rightarrow> string list \<Rightarrow> string" where
  "join sep [] = []"
| "join sep [x] = x"
| "join sep (x # y # ys) = x @ sep @ join sep (y # ys)"

fun replace_first :: "string \<Rightarrow> string \<Rightarrow> string \<Rightarrow> string" where
  "replace_first pat rep [] = (if pat = [] then rep else [])"
| "replace_first pat rep (c # cs) =
     (if take (length pat) (c # cs) = pat then rep @ drop (length pat) (c # cs)
      else c # replace_first pat rep cs)"

text \<open>
  The framework's \<^verbatim>\<open>c.json(value, status)\<close> and \<^verbatim>\<open>c.html(text, status)\<close>; the
  status defaults to 200.
\<close>

definition c_json :: "json_api \<Rightarrow> json \<Rightarrow> nat \<Rightarrow> response" where
  "c_json api v st =
     \<lparr> status = st, statusText = [], resp_headers = [(''content-type'', ''application/json'')],
       body = Some (JSON_stringify api v), webSocket = None \<rparr>"

definition c_html :: "string \<Rightarrow> nat \<Rightarrow> response" where
  "c_html t st =
     \<lparr> status = st, statusText = [],
       resp_headers = [(''content-type'', ''text/html; charset=UTF-8'')],
       body = Some t, webSocket = None \<rparr>"

definition acceptsHtml :: "headers \<Rightarrow> bool" where
  "acceptsHtml hs =
     (case headers_get hs ''Accept'' of None \<Rightarrow> False | Some a \<Rightarrow> str_includes a ''text/html'')"

definition isWebSocketRequest :: "headers \<Rightarrow> bool" where
  "isWebSocketRequest hs =
     (case headers_get hs ''Upgrade'' of
        None \<Rightarrow> False
      | Some u \<Rightarrow> toLowerCase u = ''websocket'')"

definition validateRequiredEnv :: "MoltbotEnv \<Rightarrow> string list" where
  "validateRequiredEnv env =
     (if falsy (SELFHOSTED_URL env) then [''SELFHOSTED_URL''] else [])
     @ (if falsy (MOLTBOT_GATEWAY_TOKEN env) then [''MOLTBOT_GATEWAY_TOKEN''] else [])
     @ (if falsy (CF_ACCESS_TEAM_DOMAIN env) then [''CF_ACCESS_TEAM_DOMAIN''] else [])
     @ (if falsy (CF_ACCESS_AUD env) then [''CF_ACCESS_AUD''] else [])"

text \<open>
  The middleware that validates the environment: \<open>None\<close> is \<^verbatim>\<open>next()\<close>, the request
  goes on to the routes behind it. \<open>configErrorHtml\<close> is the page template, an asset of
  the build.
\<close>

definition validateEnvMiddleware ::
  "json_api \<Rightarrow> string \<Rightarrow> MoltbotEnv \<Rightarrow> request \<Rightarrow> response option" where
  "validateEnvMiddleware api configErrorHtml env request =
     (if startsWith (pathname (req_url request)) ''/debug'' then None
      else if DEV_MODE env = Some ''true'' then None
      else
        let missingVars = validateRequiredEnv env in
        if length missingVars > 0 then
          (if acceptsHtml (req_headers request)
           then Some (c_html (replace_first ''{{MISSING_VARS}}'' (join '', '' missingVars)
                                configErrorHtml) 503)
           else Some (c_json api (JObject
                  [(''error'', JString ''Configuration error''),
                   (''missing'', JArray (map JString missingVars))]) 503))
        else None)"

text \<open>The public routes \<^verbatim>\<open>GET /sandbox-health\<close> and \<^verbatim>\<open>GET /api/status\<close>.\<close>

definition sandboxHealth :: "json_api \<Rightarrow> network \<Rightarrow> int \<Rightarrow> MoltbotEnv \<Rightarrow> response outcome" where
  "sandboxHealth api net MOLTBOT_PORT env =
     (case buildSelfHostedConfig env of
        Inl err \<Rightarrow> Throws err
      | Inr (Some config) \<Rightarrow>
          (case checkSelfHostedHealth net config of
             Returns isHealthy \<Rightarrow>
               Returns (c_json api (JObject
                 [(''status'', JString (if isHealthy then ''ok'' else ''unhealthy'')),
                  (''service'', JString ''moltbot-selfhosted''),
                  (''gateway_port'', JNumber MOLTBOT_PORT),
                  (''selfhosted_url'', JString (baseUrl config))]) 200)
           | Throws err \<Rightarrow> Throws err
           | Hangs \<Rightarrow> Hangs)
      | Inr None \<Rightarrow>
          Returns (c_json api (JObject
            [(''status'', JString ''error''),
             (''service'', JString ''moltbot-selfhosted''),
             (''error'', JString ''Self-hosted configuration not found'')]) 503))"

definition apiStatus :: "json_api \<Rightarrow> network \<Rightarrow> MoltbotEnv \<Rightarrow> response outcome" where
  "apiStatus api net env =
     (case buildSelfHostedConfig env of
        Inl err \<Rightarrow> Throws err
      | Inr None \<Rightarrow>
          Returns (c_json api (JObject
            [(''ok'', JBool False), (''status'', JString ''not_configured'')]) 200)
      | Inr (Some config) \<Rightarrow>
          (case checkSelfHostedHealth net config of
             Returns isHealthy \<Rightarrow>
               if isHealthy then
                 Returns (c_json api (JObject
                   [(''ok'', JBool True), (''status'', JString ''running''),
                    (''mode'', JString ''selfhosted''), (''url'', JString (baseUrl config))]) 200)
               else
                 Returns (c_json api (JObject
                   [(''ok'', JBool False), (''status'', JString ''not_responding''),
                    (''mode'', JString ''selfhosted''), (''url'', JString (baseUrl config))]) 200)
           | Throws err \<Rightarrow>
               Returns (c_json api (JObject
                 [(''ok'', JBool False), (''status'', JString ''error''),
                  (''error'', JString (error_message err))]) 200)
           | Hangs \<Rightarrow> Hangs))"

text \<open>
  The catch-all route. It answers by itself or hands the request to one of the relays;
  \<open>RelayWebSocket\<close> and \<open>RelayHttp\<close> stand for the tail calls
  \<^verbatim>\<open>return proxySelfHostedWebSocket(config, request, ...)\<close> and
  \<^verbatim>\<open>return proxySelfHostedRequest(config, request)\<close>. \<open>loadingPageHtml\<close> is an
  asset of the build.
\<close>

datatype catch_all =
    Respond response
  | RelayWebSocket SelfHostedConfig request
  | RelayHttp SelfHostedConfig request

definition catchAll ::
  "json_api \<Rightarrow> string \<Rightarrow> network \<Rightarrow> MoltbotEnv \<Rightarrow> request \<Rightarrow> catch_all outcome" where
  "catchAll api loadingPageHtml net env request =
     (case buildSelfHostedConfig env of
        Inl err \<Rightarrow> Throws err
      | Inr None \<Rightarrow>
          Returns (Respond (c_json api (JObject
            [(''error'', JString ''Self-hosted configuration missing''),
             (''hint'', JString ''Set SELFHOSTED_URL via wrangler secret put'')]) 503))
      | Inr (Some config) \<Rightarrow>
          (case checkSelfHostedHealth net config of
             Throws err \<Rightarrow> Throws err
           | Hangs \<Rightarrow> Hangs
           | Returns isGatewayReady \<Rightarrow>
               if \<not> isGatewayReady \<and> \<not> isWebSocketRequest (req_headers request)
                    \<and> acceptsHtml (req_headers request)
               then Returns (Respond (c_html loadingPageHtml 200))
               else if \<not> isGatewayReady then
                 Returns (Respond (c_json api (JObject
                   [(''error'', JString ''Self-hosted Moltbot gateway is not responding''),
                    (''hint'', JString ''Check that your server is running'')]) 503))
               else if isWebSocketRequest (req_headers request)
               then Returns (RelayWebSocket config request)
               else Returns (RelayHttp config request)))"

section \<open>URLs in normal form\<close>












section \<open>Example inputs\<close>

text \<open>The concrete environments, requests and peers on which the results below are
  evaluated.\<close>

definition example_env :: "string option \<Rightarrow> string option \<Rightarrow> MoltbotEnv" where
  "example_env mode u =
     \<lparr> DEPLOYMENT_MODE = mode, SELFHOSTED_URL = u, SELFHOSTED_WS_URL = None,
       SELFHOSTED_AUTH_TOKEN = None, MOLTBOT_GATEWAY_TOKEN = None,
       CF_ACCESS_TEAM_DOMAIN = None, CF_ACCESS_AUD = None, DEV_MODE = None \<rparr>"

definition scenario_A_env :: MoltbotEnv where
  "scenario_A_env = example_env (Some ''selfhosted'') (Some ''https://x.example.com/'')"


definition quoted :: "string \<Rightarrow> string" where
  "quoted s = [CHR 0x22] @ s @ [CHR 0x22]"

definition scenario_D_body :: string where
  "scenario_D_body =
     ''{'' @ quoted ''stdout'' @ '':'' @ quoted (''hi'' @ [CHR 0x5C] @ ''n'') @ '',''
       @ quoted ''stderr'' @ '':'' @ quoted [] @ '',''
       @ quoted ''exitCode'' @ '':0}''"

definition scenario_D_result :: json where
  "scenario_D_result =
     JObject [(''stdout'', JString (''hi'' @ [CHR 0x0A])), (''stderr'', JString []),
              (''exitCode'', JNumber 0)]"

definition example_api :: json_api where
  "example_api =
     \<lparr> JSON_stringify = (\<lambda>v. ''<json>''),
       JSON_parse = (\<lambda>s. if s = scenario_D_body then Some scenario_D_result else None) \<rparr>"

definition example_config :: SelfHostedConfig where
  "example_config =
     \<lparr> baseUrl = ''https://x.example.com'', wsUrl = ''wss://x.example.com'',
       authToken = None \<rparr>"

definition example_request :: request where
  "example_request =
     \<lparr> req_url = \<lparr> protocol = ''https:'', host = ''worker.example.org'',
                     pathname = ''/foo'', search = ''?x=1'', hash = [] \<rparr>,
       req_method = ''POST'',
       req_headers = [(''host'', ''worker.example.org''), (''cookie'', ''sid=1''),
                      (''x-internal-auth'', ''from-client'')],
       req_body = Some ''payload'' \<rparr>"

definition plain_response :: "nat \<Rightarrow> string \<Rightarrow> response" where
  "plain_response st b =
     \<lparr> status = st, statusText = [], resp_headers = [], body = Some b, webSocket = None \<rparr>"

definition peer_answering :: "nat \<Rightarrow> response \<Rightarrow> network" where
  "peer_answering t r rq = Reply t r"

definition silent_peer :: network where
  "silent_peer rq = Silence"

definition refusing_peer :: network where
  "refusing_peer rq = Refused ''connection refused''"

definition switching_response :: "nat option \<Rightarrow> response" where
  "switching_response ws =
     \<lparr> status = 101, statusText = ''Switching Protocols'', resp_headers = [], body = None,
       webSocket = ws \<rparr>"

definition throwing_transform :: transform where
  "throwing_transform message h = Inl (Error ''bad frame'')"

definition picky_transform :: transform where
  "picky_transform message h =
     (if message = ''bad'' then Inl (Error ''bad frame'') else Inr (message @ '' via '' @ h))"

definition all_open :: "socket \<Rightarrow> ready_state" where
  "all_open sock = OPEN"

definition unconfigured_env :: MoltbotEnv where
  "unconfigured_env = example_env (Some ''selfhosted'') None"

definition browser_request :: request where
  "browser_request =
     example_request\<lparr> req_headers := [(''accept'', ''text/html,application/xhtml+xml'')] \<rparr>"

definition browser_upgrade_request :: request where
  "browser_upgrade_request =
     example_request\<lparr> req_headers := [(''accept'', ''text/html''),
                                         (''upgrade'', ''WebSocket'')] \<rparr>"

definition example_loading_page :: string where
  "example_loading_page = ''<html>loading</html>''"

definition example_error_page :: string where
  "example_error_page = ''<p>Missing: {{MISSING_VARS}}</p>''"

definition token_config :: SelfHostedConfig where
  "token_config =
     \<lparr> baseUrl = ''https://x.example.com'', wsUrl = ''wss://x.example.com'',
       authToken = Some ''secret'' \<rparr>"

definition prefixed_config :: SelfHostedConfig where
  "prefixed_config =
     \<lparr> baseUrl = ''https://x.example.com/api'', wsUrl = ''wss://x.example.com/api'',
       authToken = None \<rparr>"

definition double_slash_request :: request where
  "double_slash_request =
     example_request\<lparr> req_url :=
       \<lparr> protocol = ''https:'', host = ''worker.example.org'',
         pathname = ''//evil.example/foo'', search = ''?x=1'', hash = [] \<rparr> \<rparr>"

section \<open>Results: Config Resolver\<close>

declare decimal.simps [simp del]

lemmas URL_parse_defs =
  URL_parse_def Let_def alpha_char_def scheme_char_def authority_end_def path_end_def

lemma URL_parse_x_example_com:
  "URL_parse ''https://x.example.com'' =
     Some \<lparr> protocol = ''https:'', host = ''x.example.com'', pathname = ''/'',
            search = [], hash = [] \<rparr>"
  by (simp add: URL_parse_defs)

lemma buildSelfHostedConfig_null_iff:
  "(buildSelfHostedConfig env = Inr None) =
     (DEPLOYMENT_MODE env \<noteq> Some ''selfhosted'' \<or> falsy (SELFHOSTED_URL env))"
  by (simp add: buildSelfHostedConfig_def Let_def split: option.splits)







section \<open>Results: Health Prober\<close>

lemma fetch_health_cases:
  "fetch net (health_request config) =
     (case net (health_request config) of
        Reply t r \<Rightarrow> if t \<le> 5000 then Returns r
                     else Throws (TimeoutError ''The operation was aborted due to timeout'')
      | Refused m \<Rightarrow> Throws (TypeError m)
      | Silence \<Rightarrow> Throws (TimeoutError ''The operation was aborted due to timeout''))"
  by (simp add: fetch_def health_request_def split: reply.splits)

text \<open>
  C9. The probe is a GET to \<open>baseUrl/health\<close> under a 5000 ms abort signal. It
  returns \<open>true\<close> exactly when the answer arrives within the deadline with a status
  from 200 to 299; in every other case (late answer, silent peer, connection failure,
  other status) it returns \<open>false\<close>. It always returns: it neither throws nor hangs.
\<close>

theorem checkSelfHostedHealth_verdict:
  "checkSelfHostedHealth net config =
     Returns (\<exists>t r. net (health_request config) = Reply t r \<and> t \<le> 5000
                      \<and> 200 \<le> status r \<and> status r \<le> 299)
   \<and> f_url (health_request config) = baseUrl config @ ''/health''
   \<and> f_method (health_request config) = ''GET''
   \<and> f_signal (health_request config) = Some 5000"
proof -
  have "checkSelfHostedHealth net config =
     Returns (\<exists>t r. net (health_request config) = Reply t r \<and> t \<le> 5000
                      \<and> 200 \<le> status r \<and> status r \<le> 299)"
    unfolding checkSelfHostedHealth_def fetch_health_cases
    by (cases "net (health_request config)") (auto simp add: ok_def)
  then show ?thesis by (simp add: health_request_def)
qed

text \<open>Scenario B: HTTP 500, HTTP 200, an answer after six seconds, a peer that never
  answers and a refused connection.\<close>

theorem checkSelfHostedHealth_verdict_witness:
  "checkSelfHostedHealth (peer_answering 40 (plain_response 500 ''down'')) example_config
     = Returns False
   \<and> checkSelfHostedHealth (peer_answering 40 (plain_response 200 ''ok'')) example_config
     = Returns True
   \<and> checkSelfHostedHealth (peer_answering 6000 (plain_response 200 ''ok'')) example_config
     = Returns False
   \<and> checkSelfHostedHealth silent_peer example_config = Returns False
   \<and> checkSelfHostedHealth refusing_peer example_config = Returns False
   \<and> f_url (health_request example_config) = ''https://x.example.com/health''"
  using checkSelfHostedHealth_verdict
          [of "peer_answering 40 (plain_response 500 ''down'')" example_config]
        checkSelfHostedHealth_verdict
          [of "peer_answering 40 (plain_response 200 ''ok'')" example_config]
        checkSelfHostedHealth_verdict
          [of "peer_answering 6000 (plain_response 200 ''ok'')" example_config]
        checkSelfHostedHealth_verdict [of silent_peer example_config]
        checkSelfHostedHealth_verdict [of refusing_peer example_config]
  by (simp add: peer_answering_def silent_peer_def refusing_peer_def plain_response_def
        example_config_def)

section \<open>Results: Remote Exec Bridge\<close>

lemma fetch_exec_cases:
  "fetch net (exec_request api config command timeoutMs) =
     (case net (exec_request api config command timeoutMs) of
        Reply t r \<Rightarrow> if t \<le> timeoutMs + 5000 then Returns r
                     else Throws (TimeoutError ''The operation was aborted due to timeout'')
      | Refused m \<Rightarrow> Throws (TypeError m)
      | Silence \<Rightarrow> Throws (TimeoutError ''The operation was aborted due to timeout''))"
  by (simp add: fetch_def exec_request_def split: reply.splits)

lemma exec_calls:
  "fst (executeSelfHostedCommand api net config command timeoutMs)
     = [exec_request api config command timeoutMs]"
  by (simp add: executeSelfHostedCommand_def Let_def split: outcome.splits option.splits)

lemma exec_signal:
  "f_signal (exec_request api config command timeoutMs) = Some (timeoutMs + 5000)"
  by (simp add: exec_request_def)

lemma exec_result:
  "snd (executeSelfHostedCommand api net config command timeoutMs) =
     (case net (exec_request api config command timeoutMs) of
        Reply t r \<Rightarrow>
          if timeoutMs + 5000 < t
          then Throws (TimeoutError ''The operation was aborted due to timeout'')
          else if \<not> ok r
          then Throws (Error (''Command execution failed: '' @ decimal (status r) @ '' ''
                             @ text_of r))
          else (case JSON_parse api (text_of r) of
                  None \<Rightarrow> Throws (SyntaxError ''Unexpected token'')
                | Some j \<Rightarrow> Returns j)
      | Refused m \<Rightarrow> Throws (TypeError m)
      | Silence \<Rightarrow> Throws (TimeoutError ''The operation was aborted due to timeout''))"
  unfolding executeSelfHostedCommand_def Let_def fetch_exec_cases
  by (simp split: reply.splits option.splits)

text \<open>
  C6. The bridge issues exactly one fetch, whose abort deadline is
  \<open>timeoutMs + 5000\<close> milliseconds: a peer that is silent or answers later makes the
  call fail with the timeout. An answer in time with a status outside 200 to 299 makes
  the call fail with an error whose message holds the status and the response body; an
  answer in time with a success status returns the parsed JSON body as it is.
\<close>

theorem executeSelfHostedCommand_contract:
  "fst (executeSelfHostedCommand api net config command timeoutMs)
     = [exec_request api config command timeoutMs]
   \<and> f_signal (exec_request api config command timeoutMs) = Some (timeoutMs + 5000)
   \<and> (net (exec_request api config command timeoutMs) = Reply t r
        \<and> t \<le> timeoutMs + 5000 \<and> \<not> ok r
      \<longrightarrow> snd (executeSelfHostedCommand api net config command timeoutMs)
            = Throws (Error (''Command execution failed: '' @ decimal (status r) @ '' ''
                             @ text_of r)))
   \<and> (net (exec_request api config command timeoutMs) = Reply t r
        \<and> t \<le> timeoutMs + 5000 \<and> ok r \<and> JSON_parse api (text_of r) = Some j
      \<longrightarrow> snd (executeSelfHostedCommand api net config command timeoutMs) = Returns j)
   \<and> (net (exec_request api config command timeoutMs) = Silence
        \<or> (net (exec_request api config command timeoutMs) = Reply t r
            \<and> timeoutMs + 5000 < t)
      \<longrightarrow> snd (executeSelfHostedCommand api net config command timeoutMs)
            = Throws (TimeoutError ''The operation was aborted due to timeout''))"
  by (simp add: exec_calls exec_signal exec_result)

text \<open>Scenario D, and a backend that answers HTTP 500 with the body \<^verbatim>\<open>boom\<close>.\<close>

theorem executeSelfHostedCommand_contract_witness:
  "peer_answering 120 (plain_response 200 scenario_D_body)
       (exec_request example_api example_config ''echo hi'' 20000)
     = Reply 120 (plain_response 200 scenario_D_body)
   \<and> ok (plain_response 200 scenario_D_body)
   \<and> JSON_parse example_api (text_of (plain_response 200 scenario_D_body))
       = Some scenario_D_result
   \<and> snd (executeSelfHostedCommand example_api
            (peer_answering 120 (plain_response 200 scenario_D_body))
            example_config ''echo hi'' 20000) = Returns scenario_D_result
   \<and> f_signal (exec_request example_api example_config ''echo hi'' 20000) = Some 25000
   \<and> \<not> ok (plain_response 500 ''boom'')
   \<and> snd (executeSelfHostedCommand example_api
            (peer_answering 120 (plain_response 500 ''boom''))
            example_config ''echo hi'' 20000)
       = Throws (Error ''Command execution failed: 500 boom'')"
  using executeSelfHostedCommand_contract
    [of example_api "peer_answering 120 (plain_response 200 scenario_D_body)"
        example_config "''echo hi''" 20000 120 "plain_response 200 scenario_D_body"
        scenario_D_result]
    executeSelfHostedCommand_contract
    [of example_api "peer_answering 120 (plain_response 500 ''boom'')"
        example_config "''echo hi''" 20000 120 "plain_response 500 ''boom''"
        scenario_D_result]
  by (simp add: peer_answering_def plain_response_def ok_def text_of_def example_api_def
        decimal.simps)

section \<open>Results: WebSocket Relay\<close>

lemma ws_established:
  assumes "ws_result (proxySelfHostedWebSocket api net clientWs config request tr) = Returns resp"
    and "status resp = 101"
  shows "ws_listeners (proxySelfHostedWebSocket api net clientWs config request tr) =
           [(ServerWs, MessageEvent), (BackendWs, MessageEvent),
            (ServerWs, CloseEvent), (BackendWs, CloseEvent),
            (ServerWs, ErrorEvent), (BackendWs, ErrorEvent)]
         \<and> ws_transform (proxySelfHostedWebSocket api net clientWs config request tr) = tr
         \<and> ws_host (proxySelfHostedWebSocket api net clientWs config request tr)
             = host (req_url request)"
  using assms
  by (auto simp add: proxySelfHostedWebSocket_def Let_def no_relay_def
      split: option.splits outcome.splits if_splits)

lemma ws_upgrade_reply:
  assumes "URL_resolve (pathname (req_url request) @ URL_search (req_url request)) (wsUrl config)
             = Some targetUrl"
    and "net (upgrade_request config request targetUrl) = Reply t r"
  shows "proxySelfHostedWebSocket api net clientWs config request tr =
     (if status r \<noteq> 101 then
        no_relay [upgrade_request config request targetUrl] (Returns
          \<lparr> status = 502, statusText = [],
            resp_headers = [(''content-type'', ''text/plain;charset=UTF-8'')],
            body = Some ''WebSocket upgrade failed'', webSocket = None \<rparr>)
      else case webSocket r of
        None \<Rightarrow>
          no_relay [upgrade_request config request targetUrl] (Returns
            \<lparr> status = 502, statusText = [],
              resp_headers = [(''content-type'', ''text/plain;charset=UTF-8'')],
              body = Some ''WebSocket not available'', webSocket = None \<rparr>)
      | Some backendWs \<Rightarrow>
          \<lparr> ws_calls = [upgrade_request config request targetUrl],
            ws_accepted = [ServerWs, BackendWs],
            ws_listeners =
              [(ServerWs, MessageEvent), (BackendWs, MessageEvent),
               (ServerWs, CloseEvent), (BackendWs, CloseEvent),
               (ServerWs, ErrorEvent), (BackendWs, ErrorEvent)],
            ws_transform = tr,
            ws_host = host (req_url request),
            ws_result = Returns
              \<lparr> status = 101, statusText = [], resp_headers = [],
                body = None, webSocket = Some clientWs \<rparr> \<rparr>)"
  using assms
  by (simp add: proxySelfHostedWebSocket_def Let_def fetch_def upgrade_request_def
      split: option.splits)

text \<open>
  C5. When the backend's answer to the upgrade request has a status other than 101, or
  has status 101 and no socket, the relay returns a 502 response that carries no socket,
  accepts no socket and registers no listener, so that no event on either socket is
  relayed.
\<close>

theorem upgrade_failure_no_relay:
  "URL_resolve (pathname (req_url request) @ URL_search (req_url request)) (wsUrl config)
       = Some targetUrl
   \<and> net (upgrade_request config request targetUrl) = Reply t r
   \<and> (status r \<noteq> 101 \<or> (status r = 101 \<and> webSocket r = None))
   \<longrightarrow> (\<exists>resp. ws_result (proxySelfHostedWebSocket api net clientWs config request tr)
                 = Returns resp \<and> status resp = 502 \<and> webSocket resp = None)
       \<and> ws_listeners (proxySelfHostedWebSocket api net clientWs config request tr) = []
       \<and> ws_accepted (proxySelfHostedWebSocket api net clientWs config request tr) = []
       \<and> dispatch (proxySelfHostedWebSocket api net clientWs config request tr)
            readyState sock ev = ([], None)"
proof (intro impI, elim conjE)
  assume res: "URL_resolve (pathname (req_url request) @ URL_search (req_url request))
                 (wsUrl config) = Some targetUrl"
    and rep: "net (upgrade_request config request targetUrl) = Reply t r"
    and bad: "status r \<noteq> 101 \<or> (status r = 101 \<and> webSocket r = None)"
  from bad show "(\<exists>resp. ws_result (proxySelfHostedWebSocket api net clientWs config request tr)
                 = Returns resp \<and> status resp = 502 \<and> webSocket resp = None)
       \<and> ws_listeners (proxySelfHostedWebSocket api net clientWs config request tr) = []
       \<and> ws_accepted (proxySelfHostedWebSocket api net clientWs config request tr) = []
       \<and> dispatch (proxySelfHostedWebSocket api net clientWs config request tr)
            readyState sock ev = ([], None)"
    unfolding ws_upgrade_reply [where net = net, OF res rep]
    by (auto simp add: no_relay_def dispatch_def)
qed

lemma example_ws_target:
  "URL_resolve (pathname (req_url example_request) @ URL_search (req_url example_request))
      (wsUrl example_config)
   = Some \<lparr> protocol = ''wss:'', host = ''x.example.com'', pathname = ''/foo'',
            search = ''?x=1'', hash = [] \<rparr>"
  by (simp add: example_request_def example_config_def URL_search_def URL_resolve_def
       URL_resolve_in_def url_tail_def URL_parse_defs special_scheme_def)

text \<open>A backend that answers 200, and one that answers 101 without a socket.\<close>

theorem upgrade_failure_no_relay_witness:
  "peer_answering 15 (plain_response 200 ''not a socket'')
       (upgrade_request example_config example_request
          \<lparr> protocol = ''wss:'', host = ''x.example.com'', pathname = ''/foo'',
            search = ''?x=1'', hash = [] \<rparr>)
     = Reply 15 (plain_response 200 ''not a socket'')
   \<and> status (plain_response 200 ''not a socket'') \<noteq> 101
   \<and> ws_result (proxySelfHostedWebSocket example_api
          (peer_answering 15 (plain_response 200 ''not a socket'')) 7
          example_config example_request (Some picky_transform))
       = Returns \<lparr> status = 502, statusText = [],
            resp_headers = [(''content-type'', ''text/plain;charset=UTF-8'')],
            body = Some ''WebSocket upgrade failed'', webSocket = None \<rparr>
   \<and> ws_listeners (proxySelfHostedWebSocket example_api
          (peer_answering 15 (plain_response 200 ''not a socket'')) 7
          example_config example_request (Some picky_transform)) = []
   \<and> dispatch (proxySelfHostedWebSocket example_api
          (peer_answering 15 (plain_response 200 ''not a socket'')) 7
          example_config example_request (Some picky_transform))
        all_open BackendWs (OnMessage (TextFrame ''hello'')) = ([], None)
   \<and> peer_answering 15 (switching_response None)
       (upgrade_request example_config example_request
          \<lparr> protocol = ''wss:'', host = ''x.example.com'', pathname = ''/foo'',
            search = ''?x=1'', hash = [] \<rparr>)
     = Reply 15 (switching_response None)
   \<and> status (switching_response None) = 101 \<and> webSocket (switching_response None) = None
   \<and> ws_result (proxySelfHostedWebSocket example_api
          (peer_answering 15 (switching_response None)) 7
          example_config example_request (Some picky_transform))
       = Returns \<lparr> status = 502, statusText = [],
            resp_headers = [(''content-type'', ''text/plain;charset=UTF-8'')],
            body = Some ''WebSocket not available'', webSocket = None \<rparr>
   \<and> ws_listeners (proxySelfHostedWebSocket example_api
          (peer_answering 15 (switching_response None)) 7
          example_config example_request (Some picky_transform)) = []"
  using upgrade_failure_no_relay
    [of example_request example_config
        "\<lparr> protocol = ''wss:'', host = ''x.example.com'', pathname = ''/foo'',
           search = ''?x=1'', hash = [] \<rparr>"
        "peer_answering 15 (plain_response 200 ''not a socket'')" 15
        "plain_response 200 ''not a socket''" example_api 7 "Some picky_transform"
        all_open BackendWs "OnMessage (TextFrame ''hello'')"]
    upgrade_failure_no_relay
    [of example_request example_config
        "\<lparr> protocol = ''wss:'', host = ''x.example.com'', pathname = ''/foo'',
           search = ''?x=1'', hash = [] \<rparr>"
        "peer_answering 15 (switching_response None)" 15
        "switching_response None" example_api 7 "Some picky_transform"
        all_open BackendWs "OnMessage (TextFrame ''hello'')"]
    example_ws_target
  by (simp add: peer_answering_def plain_response_def switching_response_def
        ws_upgrade_reply no_relay_def)

lemma example_ws_established:
  "proxySelfHostedWebSocket example_api (peer_answering 15 (switching_response (Some 4))) 7
      example_config example_request tr
   = \<lparr> ws_calls = [upgrade_request example_config example_request
                      \<lparr> protocol = ''wss:'', host = ''x.example.com'', pathname = ''/foo'',
                        search = ''?x=1'', hash = [] \<rparr>],
       ws_accepted = [ServerWs, BackendWs],
       ws_listeners =
         [(ServerWs, MessageEvent), (BackendWs, MessageEvent),
          (ServerWs, CloseEvent), (BackendWs, CloseEvent),
          (ServerWs, ErrorEvent), (BackendWs, ErrorEvent)],
       ws_transform = tr,
       ws_host = ''worker.example.org'',
       ws_result = Returns
         \<lparr> status = 101, statusText = [], resp_headers = [],
           body = None, webSocket = Some 7 \<rparr> \<rparr>"
  using ws_upgrade_reply [where net = "peer_answering 15 (switching_response (Some 4))"
      and t = 15 and r = "switching_response (Some 4)", OF example_ws_target]
  by (simp add: peer_answering_def switching_response_def example_request_def)

lemma example_request_host: "host (req_url example_request) = ''worker.example.org''"
  by (simp add: example_request_def)

text \<open>
  What holds of close and error events in an established session (the relay answered
  101): a close event whose code the runtime accepts in \<^verbatim>\<open>close\<close> makes the relay
  close the opposite socket with the event's code and reason, and an error event on
  either socket makes it close the opposite socket, not the one in error, with the
  fixed code 1011.
\<close>

lemma accepted_close_and_error_propagation:
  assumes "ws_result (proxySelfHostedWebSocket api net clientWs config request tr) = Returns resp"
    and "status resp = 101"
  shows "close_accepted code \<Longrightarrow>
           dispatch (proxySelfHostedWebSocket api net clientWs config request tr) readyState
             ServerWs (OnClose code reason) = ([Close BackendWs code reason], None)"
    and "close_accepted code \<Longrightarrow>
           dispatch (proxySelfHostedWebSocket api net clientWs config request tr) readyState
             BackendWs (OnClose code reason) = ([Close ServerWs code reason], None)"
    and "dispatch (proxySelfHostedWebSocket api net clientWs config request tr) readyState
           ServerWs OnError = ([Close BackendWs 1011 ''Client error''], None)"
    and "dispatch (proxySelfHostedWebSocket api net clientWs config request tr) readyState
           BackendWs OnError = ([Close ServerWs 1011 ''Backend error''], None)"
  using ws_established [OF assms]
  by (simp_all add: dispatch_def listener_def event_type_of_def ws_close_def close_accepted_def)

text \<open>
  C4, at a failing input. The close listeners pass \<^verbatim>\<open>event.code\<close> straight to
  \<^verbatim>\<open>close\<close>. When the client closes without a status, the close event on the
  worker's socket carries 1005; \<^verbatim>\<open>backendWs.close(1005, '')\<close> throws, and the
  listener ends without having closed the backend socket. The same holds in the other
  direction, here for a backend connection that was lost (1006).
\<close>

theorem reserved_close_code_not_propagated:
  "ws_result (proxySelfHostedWebSocket example_api
        (peer_answering 15 (switching_response (Some 4))) 7 example_config example_request None)
     = Returns \<lparr> status = 101, statusText = [], resp_headers = [], body = None,
                 webSocket = Some 7 \<rparr>
   \<and> dispatch (proxySelfHostedWebSocket example_api
        (peer_answering 15 (switching_response (Some 4))) 7 example_config example_request None)
        all_open ServerWs (OnClose 1005 [])
       = ([], Some (TypeError ''Invalid WebSocket close code''))
   \<and> dispatch (proxySelfHostedWebSocket example_api
        (peer_answering 15 (switching_response (Some 4))) 7 example_config example_request None)
        all_open BackendWs (OnClose 1006 ''connection lost'')
       = ([], Some (TypeError ''Invalid WebSocket close code''))"
  by (simp add: example_ws_established dispatch_def listener_def event_type_of_def
        ws_close_def close_accepted_def)

text \<open>
  C2, as amended. The relay calls the transform without a handler around it. In an
  established session with a transform, a backend-to-client text frame on which the
  transform throws is not forwarded, neither transformed nor as it came: the message
  listener ends with that exception before any send. The exception is reported as an
  error event on the backend socket, and the relay's error listener then closes the
  client socket with code 1011, which ends the session. A frame on which the transform
  returns is forwarded transformed to an open client socket.
\<close>

theorem transform_failure_drops_frame:
  "ws_result (proxySelfHostedWebSocket api net clientWs config request (Some f)) = Returns resp
   \<and> status resp = 101
   \<longrightarrow> (f s (host (req_url request)) = Inl err
        \<longrightarrow> dispatch (proxySelfHostedWebSocket api net clientWs config request (Some f))
              readyState BackendWs (OnMessage (TextFrame s)) = ([], Some err)
          \<and> receive_frame (proxySelfHostedWebSocket api net clientWs config request (Some f))
              readyState BackendWs (TextFrame s) = [Close ServerWs 1011 ''Backend error''])
     \<and> (f s (host (req_url request)) = Inr s' \<and> readyState ServerWs = OPEN
        \<longrightarrow> receive_frame (proxySelfHostedWebSocket api net clientWs config request (Some f))
              readyState BackendWs (TextFrame s)
            = [Send ServerWs (TextFrame s')])"
proof (intro impI, elim conjE)
  assume "ws_result (proxySelfHostedWebSocket api net clientWs config request (Some f))
            = Returns resp"
    and "status resp = 101"
  then have est:
    "ws_listeners (proxySelfHostedWebSocket api net clientWs config request (Some f)) =
           [(ServerWs, MessageEvent), (BackendWs, MessageEvent),
            (ServerWs, CloseEvent), (BackendWs, CloseEvent),
            (ServerWs, ErrorEvent), (BackendWs, ErrorEvent)]
     \<and> ws_transform (proxySelfHostedWebSocket api net clientWs config request (Some f)) = Some f
     \<and> ws_host (proxySelfHostedWebSocket api net clientWs config request (Some f))
         = host (req_url request)"
    using ws_established by blast
  show "(f s (host (req_url request)) = Inl err
        \<longrightarrow> dispatch (proxySelfHostedWebSocket api net clientWs config request (Some f))
              readyState BackendWs (OnMessage (TextFrame s)) = ([], Some err)
          \<and> receive_frame (proxySelfHostedWebSocket api net clientWs config request (Some f))
              readyState BackendWs (TextFrame s) = [Close ServerWs 1011 ''Backend error''])
     \<and> (f s (host (req_url request)) = Inr s' \<and> readyState ServerWs = OPEN
        \<longrightarrow> receive_frame (proxySelfHostedWebSocket api net clientWs config request (Some f))
              readyState BackendWs (TextFrame s)
            = [Send ServerWs (TextFrame s')])"
    using est
    by (simp add: receive_frame_def dispatch_def listener_def event_type_of_def
          backendWs_message_def ws_close_def close_accepted_def)
qed

text \<open>A transform that throws on the frame \<^verbatim>\<open>bad\<close> only.\<close>

theorem transform_failure_drops_frame_witness:
  "ws_result (proxySelfHostedWebSocket example_api
        (peer_answering 15 (switching_response (Some 4))) 7 example_config example_request
        (Some picky_transform))
     = Returns \<lparr> status = 101, statusText = [], resp_headers = [], body = None,
                 webSocket = Some 7 \<rparr>
   \<and> picky_transform ''bad'' (host (req_url example_request)) = Inl (Error ''bad frame'')
   \<and> dispatch (proxySelfHostedWebSocket example_api
        (peer_answering 15 (switching_response (Some 4))) 7 example_config example_request
        (Some picky_transform))
        all_open BackendWs (OnMessage (TextFrame ''bad'')) = ([], Some (Error ''bad frame''))
   \<and> receive_frame (proxySelfHostedWebSocket example_api
        (peer_answering 15 (switching_response (Some 4))) 7 example_config example_request
        (Some picky_transform))
        all_open BackendWs (TextFrame ''bad'') = [Close ServerWs 1011 ''Backend error'']
   \<and> picky_transform ''good'' (host (req_url example_request))
       = Inr ''good via worker.example.org''
   \<and> all_open ServerWs = OPEN
   \<and> receive_frame (proxySelfHostedWebSocket example_api
        (peer_answering 15 (switching_response (Some 4))) 7 example_config example_request
        (Some picky_transform))
        all_open BackendWs (TextFrame ''good'')
       = [Send ServerWs (TextFrame ''good via worker.example.org'')]"
  using transform_failure_drops_frame
    [of example_api "peer_answering 15 (switching_response (Some 4))" 7 example_config
        example_request picky_transform
        "\<lparr> status = 101, statusText = [], resp_headers = [], body = None, webSocket = Some 7 \<rparr>"
        "''bad''" "Error ''bad frame''" all_open "''good via worker.example.org''"]
    transform_failure_drops_frame
    [of example_api "peer_answering 15 (switching_response (Some 4))" 7 example_config
        example_request picky_transform
        "\<lparr> status = 101, statusText = [], resp_headers = [], body = None, webSocket = Some 7 \<rparr>"
        "''good''" "Error ''bad frame''" all_open "''good via worker.example.org''"]
  by (simp add: example_ws_established picky_transform_def all_open_def example_request_host)

text \<open>
  The claim as stated (the original frame is still forwarded and the session is not
  aborted) fails: with a transform that throws and an open client socket, the frame is
  not sent, and the only call made on a socket closes the client.
\<close>

theorem transform_throws_frame_not_forwarded:
  "ws_result (proxySelfHostedWebSocket example_api
        (peer_answering 15 (switching_response (Some 4))) 7 example_config example_request
        (Some throwing_transform))
     = Returns \<lparr> status = 101, statusText = [], resp_headers = [], body = None,
                 webSocket = Some 7 \<rparr>
   \<and> throwing_transform ''frame'' (host (req_url example_request)) = Inl (Error ''bad frame'')
   \<and> all_open ServerWs = OPEN
   \<and> dispatch (proxySelfHostedWebSocket example_api
        (peer_answering 15 (switching_response (Some 4))) 7 example_config example_request
        (Some throwing_transform))
        all_open BackendWs (OnMessage (TextFrame ''frame'')) = ([], Some (Error ''bad frame''))
   \<and> receive_frame (proxySelfHostedWebSocket example_api
        (peer_answering 15 (switching_response (Some 4))) 7 example_config example_request
        (Some throwing_transform))
        all_open BackendWs (TextFrame ''frame'') = [Close ServerWs 1011 ''Backend error'']
   \<and> receive_frame (proxySelfHostedWebSocket example_api
        (peer_answering 15 (switching_response (Some 4))) 7 example_config example_request
        (Some throwing_transform))
        all_open BackendWs (TextFrame ''frame'')
       \<noteq> [Send ServerWs (TextFrame ''frame'')]"
  by (simp add: example_ws_established throwing_transform_def all_open_def receive_frame_def
        dispatch_def listener_def event_type_of_def backendWs_message_def ws_close_def
        close_accepted_def)

section \<open>Results: routes\<close>

lemma scenario_A_config: "buildSelfHostedConfig scenario_A_env = Inr (Some example_config)"
  using URL_parse_x_example_com
  by (simp add: scenario_A_env_def example_env_def example_config_def
        buildSelfHostedConfig_def falsy_def strip_trailing_slash_def Let_def
        set_protocol_def special_scheme_def href_def)

lemma unconfigured_null: "buildSelfHostedConfig unconfigured_env = Inr None"
  by (simp add: unconfigured_env_def example_env_def buildSelfHostedConfig_def falsy_def)

lemma health_500: "checkSelfHostedHealth (peer_answering 40 (plain_response 500 ''down'')) config = Returns False"
  by (simp add: checkSelfHostedHealth_def fetch_health_cases peer_answering_def plain_response_def ok_def)

lemma health_200: "checkSelfHostedHealth (peer_answering 40 (plain_response 200 ''ok'')) config = Returns True"
  by (simp add: checkSelfHostedHealth_def fetch_health_cases peer_answering_def plain_response_def ok_def)

lemma example_accepts:
  "acceptsHtml (req_headers browser_request)"
  "\<not> isWebSocketRequest (req_headers browser_request)"
  "acceptsHtml (req_headers browser_upgrade_request)"
  "isWebSocketRequest (req_headers browser_upgrade_request)"
  "\<not> acceptsHtml (req_headers example_request)"
  "\<not> isWebSocketRequest (req_headers example_request)"
  by (simp_all add: browser_request_def browser_upgrade_request_def example_request_def
        acceptsHtml_def isWebSocketRequest_def headers_get_def toLowerCase_def lower_char_def)

lemma catchAll_unhealthy:
  assumes "buildSelfHostedConfig env = Inr (Some config)"
    and "checkSelfHostedHealth net config = Returns False"
  shows "catchAll api loadingPageHtml net env request =
     Returns (Respond
       (if acceptsHtml (req_headers request) \<and> \<not> isWebSocketRequest (req_headers request)
        then c_html loadingPageHtml 200
        else c_json api (JObject
               [(''error'', JString ''Self-hosted Moltbot gateway is not responding''),
                (''hint'', JString ''Check that your server is running'')]) 503))"
  using assms by (simp add: catchAll_def)

lemma catchAll_relays_only_when_healthy:
  assumes "catchAll api loadingPageHtml net env request = Returns (RelayHttp c r)
           \<or> catchAll api loadingPageHtml net env request = Returns (RelayWebSocket c r)"
  shows "buildSelfHostedConfig env = Inr (Some c) \<and> r = request
         \<and> checkSelfHostedHealth net c = Returns True"
  using assms
  by (auto simp add: catchAll_def split: sum.splits option.splits outcome.splits if_splits)

text \<open>
  C3. When the probe reports unhealthy the catch-all route answers by itself: the
  loading page when the caller accepts HTML and the request is not a WebSocket upgrade,
  otherwise a 503 with an \<open>error\<close> and a \<open>hint\<close>. It hands the request to the
  HTTP relay or to the WebSocket relay only when the probe reported healthy.
\<close>

theorem catchAll_health_gate:
  "(buildSelfHostedConfig env = Inr (Some config)
      \<and> checkSelfHostedHealth net config = Returns False
    \<longrightarrow> catchAll api loadingPageHtml net env request =
         Returns (Respond
           (if acceptsHtml (req_headers request) \<and> \<not> isWebSocketRequest (req_headers request)
            then c_html loadingPageHtml 200
            else c_json api (JObject
                   [(''error'', JString ''Self-hosted Moltbot gateway is not responding''),
                    (''hint'', JString ''Check that your server is running'')]) 503)))
   \<and> (catchAll api loadingPageHtml net env request = Returns (RelayHttp c r)
        \<or> catchAll api loadingPageHtml net env request = Returns (RelayWebSocket c r)
      \<longrightarrow> buildSelfHostedConfig env = Inr (Some c) \<and> r = request
          \<and> checkSelfHostedHealth net c = Returns True)"
  using catchAll_unhealthy [of env config net api loadingPageHtml request]
    catchAll_relays_only_when_healthy [of api loadingPageHtml net env request c r]
  by blast

text \<open>A backend that answers the probe with 500: a browser, a browser's upgrade and a
  JSON caller; then a backend that answers 200.\<close>

theorem catchAll_health_gate_witness:
  "buildSelfHostedConfig scenario_A_env = Inr (Some example_config)
   \<and> checkSelfHostedHealth (peer_answering 40 (plain_response 500 ''down'')) example_config
       = Returns False
   \<and> catchAll example_api example_loading_page
        (peer_answering 40 (plain_response 500 ''down'')) scenario_A_env browser_request
       = Returns (Respond (c_html example_loading_page 200))
   \<and> catchAll example_api example_loading_page
        (peer_answering 40 (plain_response 500 ''down'')) scenario_A_env browser_upgrade_request
       = Returns (Respond (c_json example_api (JObject
                   [(''error'', JString ''Self-hosted Moltbot gateway is not responding''),
                    (''hint'', JString ''Check that your server is running'')]) 503))
   \<and> catchAll example_api example_loading_page
        (peer_answering 40 (plain_response 500 ''down'')) scenario_A_env example_request
       = Returns (Respond (c_json example_api (JObject
                   [(''error'', JString ''Self-hosted Moltbot gateway is not responding''),
                    (''hint'', JString ''Check that your server is running'')]) 503))
   \<and> catchAll example_api example_loading_page
        (peer_answering 40 (plain_response 200 ''ok'')) scenario_A_env example_request
       = Returns (RelayHttp example_config example_request)
   \<and> checkSelfHostedHealth (peer_answering 40 (plain_response 200 ''ok'')) example_config
       = Returns True"
  using catchAll_health_gate
    [of scenario_A_env example_config "peer_answering 40 (plain_response 500 ''down'')"
        example_api example_loading_page browser_request example_config example_request]
    catchAll_health_gate
    [of scenario_A_env example_config "peer_answering 40 (plain_response 500 ''down'')"
        example_api example_loading_page browser_upgrade_request example_config example_request]
    catchAll_health_gate
    [of scenario_A_env example_config "peer_answering 40 (plain_response 500 ''down'')"
        example_api example_loading_page example_request example_config example_request]
    catchAll_health_gate
    [of scenario_A_env example_config "peer_answering 40 (plain_response 200 ''ok'')"
        example_api example_loading_page example_request example_config example_request]
  by (simp add: scenario_A_config health_500 health_200 example_accepts catchAll_def)

lemma validateRequiredEnv_set:
  "set (validateRequiredEnv env) =
     {n. (n = ''SELFHOSTED_URL'' \<and> falsy (SELFHOSTED_URL env))
       \<or> (n = ''MOLTBOT_GATEWAY_TOKEN'' \<and> falsy (MOLTBOT_GATEWAY_TOKEN env))
       \<or> (n = ''CF_ACCESS_TEAM_DOMAIN'' \<and> falsy (CF_ACCESS_TEAM_DOMAIN env))
       \<or> (n = ''CF_ACCESS_AUD'' \<and> falsy (CF_ACCESS_AUD env))}"
  by (auto simp add: validateRequiredEnv_def)

lemma middleware_503:
  assumes "validateRequiredEnv env \<noteq> []"
    and "\<not> startsWith (pathname (req_url request)) ''/debug''"
    and "DEV_MODE env \<noteq> Some ''true''"
  shows "validateEnvMiddleware api configErrorHtml env request =
     Some (if acceptsHtml (req_headers request)
           then c_html (replace_first ''{{MISSING_VARS}}''
                          (join '', '' (validateRequiredEnv env)) configErrorHtml) 503
           else c_json api (JObject
                  [(''error'', JString ''Configuration error''),
                   (''missing'', JArray (map JString (validateRequiredEnv env)))]) 503)"
  using assms by (simp add: validateEnvMiddleware_def Let_def)

lemma unconfigured_routes:
  assumes "DEPLOYMENT_MODE env \<noteq> Some ''selfhosted'' \<or> falsy (SELFHOSTED_URL env)"
  shows "buildSelfHostedConfig env = Inr None"
    and "apiStatus api net env =
           Returns (c_json api (JObject
             [(''ok'', JBool False), (''status'', JString ''not_configured'')]) 200)"
    and "sandboxHealth api net port env =
           Returns (c_json api (JObject
             [(''status'', JString ''error''),
              (''service'', JString ''moltbot-selfhosted''),
              (''error'', JString ''Self-hosted configuration not found'')]) 503)"
    and "catchAll api loadingPageHtml net env request =
           Returns (Respond (c_json api (JObject
             [(''error'', JString ''Self-hosted configuration missing''),
              (''hint'', JString ''Set SELFHOSTED_URL via wrangler secret put'')]) 503))"
proof -
  show n: "buildSelfHostedConfig env = Inr None"
    using assms buildSelfHostedConfig_null_iff by blast
  show "apiStatus api net env =
           Returns (c_json api (JObject
             [(''ok'', JBool False), (''status'', JString ''not_configured'')]) 200)"
    by (simp add: apiStatus_def n)
  show "sandboxHealth api net port env =
           Returns (c_json api (JObject
             [(''status'', JString ''error''),
              (''service'', JString ''moltbot-selfhosted''),
              (''error'', JString ''Self-hosted configuration not found'')]) 503)"
    by (simp add: sandboxHealth_def n)
  show "catchAll api loadingPageHtml net env request =
           Returns (Respond (c_json api (JObject
             [(''error'', JString ''Self-hosted configuration missing''),
              (''hint'', JString ''Set SELFHOSTED_URL via wrangler secret put'')]) 503))"
    by (simp add: catchAll_def n)
qed

text \<open>
  C1, as amended. When the deployment mode is not \<^verbatim>\<open>selfhosted\<close> or the backend URL
  is absent, the resolver returns \<^verbatim>\<open>null\<close>; \<^verbatim>\<open>/sandbox-health\<close> and the
  catch-all route then answer 503 with a fixed error body, and the public status route
  answers 200 with \<^verbatim>\<open>{ok: false, status: 'not_configured'}\<close>. The names of the
  missing settings are carried by the 503 of the middleware that validates the
  environment, for every path outside \<^verbatim>\<open>/debug\<close> unless \<^verbatim>\<open>DEV_MODE\<close> is
  \<^verbatim>\<open>true\<close>: its list holds exactly the names, among the four required settings, of
  those that are absent.
\<close>

theorem unconfigured_responses:
  "(DEPLOYMENT_MODE env \<noteq> Some ''selfhosted'' \<or> falsy (SELFHOSTED_URL env)
    \<longrightarrow> buildSelfHostedConfig env = Inr None
      \<and> apiStatus api net env =
           Returns (c_json api (JObject
             [(''ok'', JBool False), (''status'', JString ''not_configured'')]) 200)
      \<and> sandboxHealth api net port env =
           Returns (c_json api (JObject
             [(''status'', JString ''error''),
              (''service'', JString ''moltbot-selfhosted''),
              (''error'', JString ''Self-hosted configuration not found'')]) 503)
      \<and> catchAll api loadingPageHtml net env request =
           Returns (Respond (c_json api (JObject
             [(''error'', JString ''Self-hosted configuration missing''),
              (''hint'', JString ''Set SELFHOSTED_URL via wrangler secret put'')]) 503)))
   \<and> (validateRequiredEnv env \<noteq> []
        \<and> \<not> startsWith (pathname (req_url request)) ''/debug''
        \<and> DEV_MODE env \<noteq> Some ''true''
    \<longrightarrow> validateEnvMiddleware api configErrorHtml env request =
         Some (if acceptsHtml (req_headers request)
               then c_html (replace_first ''{{MISSING_VARS}}''
                              (join '', '' (validateRequiredEnv env)) configErrorHtml) 503
               else c_json api (JObject
                      [(''error'', JString ''Configuration error''),
                       (''missing'', JArray (map JString (validateRequiredEnv env)))]) 503))
   \<and> set (validateRequiredEnv env) =
       {n. (n = ''SELFHOSTED_URL'' \<and> falsy (SELFHOSTED_URL env))
         \<or> (n = ''MOLTBOT_GATEWAY_TOKEN'' \<and> falsy (MOLTBOT_GATEWAY_TOKEN env))
         \<or> (n = ''CF_ACCESS_TEAM_DOMAIN'' \<and> falsy (CF_ACCESS_TEAM_DOMAIN env))
         \<or> (n = ''CF_ACCESS_AUD'' \<and> falsy (CF_ACCESS_AUD env))}"
  by (simp add: unconfigured_routes middleware_503 validateRequiredEnv_set)

lemma unconfigured_missing:
  "validateRequiredEnv unconfigured_env
     = [''SELFHOSTED_URL'', ''MOLTBOT_GATEWAY_TOKEN'', ''CF_ACCESS_TEAM_DOMAIN'', ''CF_ACCESS_AUD'']"
  by (simp add: validateRequiredEnv_def unconfigured_env_def example_env_def falsy_def)

text \<open>An environment without backend URL, gateway token and access settings.\<close>

theorem unconfigured_responses_witness:
  "falsy (SELFHOSTED_URL unconfigured_env)
   \<and> buildSelfHostedConfig unconfigured_env = Inr None
   \<and> apiStatus example_api silent_peer unconfigured_env =
        Returns (c_json example_api (JObject
          [(''ok'', JBool False), (''status'', JString ''not_configured'')]) 200)
   \<and> catchAll example_api example_loading_page silent_peer unconfigured_env example_request =
        Returns (Respond (c_json example_api (JObject
          [(''error'', JString ''Self-hosted configuration missing''),
           (''hint'', JString ''Set SELFHOSTED_URL via wrangler secret put'')]) 503))
   \<and> validateRequiredEnv unconfigured_env \<noteq> []
   \<and> \<not> startsWith (pathname (req_url example_request)) ''/debug''
   \<and> DEV_MODE unconfigured_env \<noteq> Some ''true''
   \<and> validateEnvMiddleware example_api example_error_page unconfigured_env example_request =
        Some (c_json example_api (JObject
          [(''error'', JString ''Configuration error''),
           (''missing'', JArray [JString ''SELFHOSTED_URL'', JString ''MOLTBOT_GATEWAY_TOKEN'',
                                 JString ''CF_ACCESS_TEAM_DOMAIN'', JString ''CF_ACCESS_AUD''])])
          503)
   \<and> validateEnvMiddleware example_api example_error_page unconfigured_env browser_request =
        Some (c_html
          ''<p>Missing: SELFHOSTED_URL, MOLTBOT_GATEWAY_TOKEN, CF_ACCESS_TEAM_DOMAIN, CF_ACCESS_AUD</p>''
          503)"
  using unconfigured_responses
    [of unconfigured_env example_api silent_peer 18789 example_loading_page example_request
        example_error_page]
    unconfigured_responses
    [of unconfigured_env example_api silent_peer 18789 example_loading_page browser_request
        example_error_page]
  by (simp add: unconfigured_missing example_accepts falsy_def startsWith_def
        example_error_page_def)
     (simp add: unconfigured_env_def example_env_def example_request_def browser_request_def)

text \<open>
  The claim as stated (the public status route answers 503 when the configuration is
  missing) fails: the route answers with status 200.
\<close>

theorem status_route_unconfigured_200:
  "buildSelfHostedConfig unconfigured_env = Inr None
   \<and> apiStatus example_api silent_peer unconfigured_env =
        Returns \<lparr> status = 200, statusText = [],
                  resp_headers = [(''content-type'', ''application/json'')],
                  body = Some (JSON_stringify example_api (JObject
                    [(''ok'', JBool False), (''status'', JString ''not_configured'')])),
                  webSocket = None \<rparr>"
  by (simp add: unconfigured_null apiStatus_def c_json_def)

section \<open>Results: HTTP Relay and the upstream headers\<close>

lemmas URL_resolve_defs =
  URL_resolve_def URL_resolve_in_def url_tail_def URL_search_def special_scheme_def

lemma relay_calls:
  "fst (proxySelfHostedRequest api net config request) =
     (case URL_resolve (pathname (req_url request) @ URL_search (req_url request))
             (baseUrl config) of
        None \<Rightarrow> []
      | Some targetUrl \<Rightarrow> [relay_request config request targetUrl])"
  by (simp add: proxySelfHostedRequest_def Let_def split: option.splits outcome.splits)

lemma relay_result:
  assumes "URL_resolve (pathname (req_url request) @ URL_search (req_url request))
             (baseUrl config) = Some targetUrl"
    and "net (relay_request config request targetUrl) = Reply t r"
    and "200 \<le> status r" and "status r \<le> 599"
  shows "snd (proxySelfHostedRequest api net config request) =
     Returns \<lparr> status = status r, statusText = statusText r,
               resp_headers =
                 headers_set ''X-Debug-Path'' (pathname (req_url request))
                   (headers_set ''X-Worker-Debug'' ''proxy-to-selfhosted'' (resp_headers r)),
               body = body r, webSocket = None \<rparr>"
  using assms
  by (simp add: proxySelfHostedRequest_def Let_def fetch_def relay_request_def)

lemma lower_names:
  "toLowerCase ''host'' = ''host''" "toLowerCase ''Host'' = ''host''"
  "toLowerCase ''Cookie'' = ''cookie''"
  "toLowerCase ''X-Internal-Auth'' = ''x-internal-auth''"
  "toLowerCase ''Content-Type'' = ''content-type''"
  by (simp_all add: toLowerCase_def lower_char_def)

lemma relay_headers_no_host: "headers_get (relay_headers config request) ''Host'' = None"
  by (simp add: relay_headers_def headers_get_def headers_set_def headers_delete_def
        Let_def lower_names update_conv' delete_conv')

lemma path_absolute_target:
  assumes b: "URL_parse base = Some b"
    and p1: "take 1 p = ''/''" and p2: "take 2 p \<noteq> ''//''"
    and pc: "\<forall>c \<in> set p. \<not> path_end c"
    and q: "q = [] \<or> (hd q = CHR ''?'' \<and> CHR ''#'' \<notin> set q)"
  shows "URL_resolve (p @ q) base = Some (b\<lparr> pathname := p, search := q, hash := [] \<rparr>)"
proof -
  from p1 obtain p' where p: "p = CHR ''/'' # p'" by (cases p) auto
  have t2: "take 2 (p @ q) \<noteq> ''//''"
  proof (cases p')
    case Nil
    with p q show ?thesis by (cases q) auto
  next
    case (Cons a as)
    with p p2 show ?thesis by auto
  qed
  have t1: "take 1 (p @ q) = ''/''" using p by simp
  have tw: "takeWhile (\<lambda>c. \<not> path_end c) (p @ q) = p"
    using pc q by (cases q) (auto simp add: takeWhile_append2 path_end_def)
  have dw: "dropWhile (\<lambda>c. \<not> path_end c) (p @ q) = q"
    using pc q by (cases q) (auto simp add: dropWhile_append2 path_end_def)
  have sq: "takeWhile (\<lambda>c. c \<noteq> CHR ''#'') q = q" using q by auto
  have hq: "dropWhile (\<lambda>c. c \<noteq> CHR ''#'') q = []" using q by auto
  have pne: "p \<noteq> []" using p by simp
  show ?thesis
    using b t1 t2 pne
    by (simp add: URL_resolve_def URL_resolve_in_def url_tail_def Let_def tw dw sq hq)
qed


text \<open>
  What holds of every relay call whose base URL parses and whose request path starts
  with one slash only: the upstream request goes to the base's scheme and authority
  followed by the request's path and query, with the inbound method and body, without a
  Host header, with redirects left to the caller; and the response has the status and
  the body of the upstream's answer (lemma \<open>relay_result\<close>, for a status from 200 to
  599, the ones a \<^verbatim>\<open>Response\<close> can be built with).
\<close>

lemma relay_forwarding:
  assumes "URL_parse (baseUrl config) = Some b"
    and "take 1 (pathname (req_url request)) = ''/''"
    and "take 2 (pathname (req_url request)) \<noteq> ''//''"
    and "\<forall>c \<in> set (pathname (req_url request)). \<not> path_end c"
    and "URL_search (req_url request) = []
         \<or> (hd (URL_search (req_url request)) = CHR ''?''
            \<and> CHR ''#'' \<notin> set (URL_search (req_url request)))"
  shows "fst (proxySelfHostedRequest api net config request) =
     [\<lparr> f_url = protocol b @ ''//'' @ host b @ pathname (req_url request)
                @ URL_search (req_url request),
        f_method = req_method request,
        f_headers = relay_headers config request,
        f_body = req_body request,
        f_redirect = Manual, f_signal = None \<rparr>]"
  using path_absolute_target [OF assms]
  by (simp add: relay_calls relay_request_def href_def)

text \<open>
  A base URL with a path of its own loses it: the reference starts with a slash and
  replaces the whole path, where the probe and the exec bridge append to the base string.
\<close>

lemma relay_drops_base_path:
  "baseUrl prefixed_config = ''https://x.example.com/api''
   \<and> map f_url (fst (proxySelfHostedRequest example_api silent_peer prefixed_config
                        example_request))
       = [''https://x.example.com/foo?x=1'']
   \<and> f_url (health_request prefixed_config) = ''https://x.example.com/api/health''"
  by (simp add: relay_calls relay_request_def href_def health_request_def
        prefixed_config_def example_request_def URL_resolve_defs URL_parse_defs)


text \<open>
  C7, at a failing input. The relay builds its target with
  \<^verbatim>\<open>new URL(url.pathname + url.search, config.baseUrl)\<close>. A request path that starts
  with two slashes is a scheme-relative reference: the request for
  \<^verbatim>\<open>https://worker.example.org//evil.example/foo?x=1\<close> is sent, with the caller's
  cookie and the internal token, to \<^verbatim>\<open>https://evil.example/foo?x=1\<close> and not to the
  backend \<^verbatim>\<open>https://x.example.com\<close>.
\<close>

theorem relay_double_slash_leaves_backend:
  "baseUrl token_config = ''https://x.example.com''
   \<and> pathname (req_url double_slash_request) @ URL_search (req_url double_slash_request)
       = ''//evil.example/foo?x=1''
   \<and> fst (proxySelfHostedRequest example_api silent_peer token_config double_slash_request) =
       [\<lparr> f_url = ''https://evil.example/foo?x=1'', f_method = ''POST'',
          f_headers = [(''cookie'', ''sid=1''), (''x-internal-auth'', ''secret'')],
          f_body = Some ''payload'', f_redirect = Manual, f_signal = None \<rparr>]"
  by (simp add: relay_calls relay_request_def href_def relay_headers_def Let_def
        token_config_def double_slash_request_def example_request_def
        URL_resolve_defs URL_parse_defs falsy_def
        headers_get_def headers_set_def headers_delete_def lower_names AList.delete_eq)

lemma relay_headers_no_token:
  assumes "authToken config = None"
  shows "relay_headers config request = headers_delete ''host'' (req_headers request)"
proof (cases "map_of (req_headers request) ''cookie''")
  case None
  with assms show ?thesis
    by (simp add: relay_headers_def Let_def falsy_def headers_get_def lower_names)
next
  case (Some v)
  then have "map_of (AList.delete ''host'' (req_headers request)) ''cookie'' = Some v"
    by simp
  then have "AList.update ''cookie'' v (AList.delete ''host'' (req_headers request))
               = AList.delete ''host'' (req_headers request)"
    by (rule update_triv)
  with assms Some show ?thesis
    by (simp add: relay_headers_def Let_def falsy_def headers_get_def headers_set_def
          headers_delete_def lower_names)
qed

lemma ws_calls_headers:
  assumes "authToken config = None"
    and "rq \<in> set (ws_calls (proxySelfHostedWebSocket api net clientWs config request tr))"
  shows "f_headers rq = req_headers request"
  using assms
  by (auto simp add: proxySelfHostedWebSocket_def Let_def no_relay_def upgrade_request_def
        falsy_def split: option.splits outcome.splits if_splits)

lemma relay_calls_headers:
  assumes "authToken config = None"
    and "rq \<in> set (fst (proxySelfHostedRequest api net config request))"
  shows "f_headers rq = headers_delete ''host'' (req_headers request)"
  using assms relay_headers_no_token [of config request]
  by (auto simp add: relay_calls relay_request_def split: option.splits)

lemma delete_host_keeps_auth:
  "headers_get (headers_delete ''host'' hs) ''X-Internal-Auth'' = headers_get hs ''X-Internal-Auth''"
  by (simp add: headers_get_def headers_delete_def lower_names)

text \<open>
  C10, as amended. With no token in the config, the probe sends no header at all, the
  exec bridge sends only its content type, the upgrade request of the WebSocket relay
  carries the inbound headers as they are, and the HTTP relay carries the inbound
  headers without the Host header; a client-supplied \<^verbatim>\<open>X-Internal-Auth\<close> reaches the
  upstream request with its value unchanged.
\<close>

theorem no_token_no_auth_header:
  "authToken config = None \<longrightarrow>
     f_headers (health_request config) = []
   \<and> f_headers (exec_request api config command timeoutMs)
       = [(''content-type'', ''application/json'')]
   \<and> (\<forall>rq \<in> set (ws_calls (proxySelfHostedWebSocket api net clientWs config request tr)).
         f_headers rq = req_headers request)
   \<and> (\<forall>rq \<in> set (fst (proxySelfHostedRequest api net config request)).
         f_headers rq = headers_delete ''host'' (req_headers request)
         \<and> headers_get (f_headers rq) ''X-Internal-Auth''
             = headers_get (req_headers request) ''X-Internal-Auth'')"
proof
  assume none: "authToken config = None"
  have h: "f_headers (health_request config) = []"
    using none by (simp add: health_request_def buildAuthHeaders_def falsy_def)
  have e: "f_headers (exec_request api config command timeoutMs)
             = [(''content-type'', ''application/json'')]"
    using none by (simp add: exec_request_def falsy_def headers_set_def lower_names)
  have w: "\<forall>rq \<in> set (ws_calls (proxySelfHostedWebSocket api net clientWs config request tr)).
         f_headers rq = req_headers request"
    using none by (simp add: ws_calls_headers)
  have r: "\<forall>rq \<in> set (fst (proxySelfHostedRequest api net config request)).
         f_headers rq = headers_delete ''host'' (req_headers request)
         \<and> headers_get (f_headers rq) ''X-Internal-Auth''
             = headers_get (req_headers request) ''X-Internal-Auth''"
    using none by (simp add: relay_calls_headers delete_host_keeps_auth)
  from h e w r show "f_headers (health_request config) = []
   \<and> f_headers (exec_request api config command timeoutMs)
       = [(''content-type'', ''application/json'')]
   \<and> (\<forall>rq \<in> set (ws_calls (proxySelfHostedWebSocket api net clientWs config request tr)).
         f_headers rq = req_headers request)
   \<and> (\<forall>rq \<in> set (fst (proxySelfHostedRequest api net config request)).
         f_headers rq = headers_delete ''host'' (req_headers request)
         \<and> headers_get (f_headers rq) ''X-Internal-Auth''
             = headers_get (req_headers request) ''X-Internal-Auth'')"
    by blast
qed

lemma example_relay_target:
  "URL_resolve (pathname (req_url example_request) @ URL_search (req_url example_request))
      (baseUrl example_config)
   = Some \<lparr> protocol = ''https:'', host = ''x.example.com'', pathname = ''/foo'',
            search = ''?x=1'', hash = [] \<rparr>"
  by (simp add: example_request_def example_config_def URL_resolve_defs URL_parse_defs)

lemma example_relay_calls:
  "fst (proxySelfHostedRequest example_api net example_config example_request) =
     [relay_request example_config example_request
        \<lparr> protocol = ''https:'', host = ''x.example.com'', pathname = ''/foo'',
          search = ''?x=1'', hash = [] \<rparr>]"
  by (simp add: relay_calls example_relay_target)

lemma ws_calls_resolved:
  assumes "URL_resolve (pathname (req_url request) @ URL_search (req_url request)) (wsUrl config)
             = Some targetUrl"
  shows "ws_calls (proxySelfHostedWebSocket api net clientWs config request tr)
           = [upgrade_request config request targetUrl]"
  using assms
  by (simp add: proxySelfHostedWebSocket_def Let_def no_relay_def
        split: outcome.splits option.splits)

lemma example_relay_headers:
  "relay_headers example_config example_request
     = [(''cookie'', ''sid=1''), (''x-internal-auth'', ''from-client'')]"
  by (simp add: relay_headers_def Let_def example_config_def example_request_def falsy_def
        headers_get_def headers_set_def headers_delete_def lower_names AList.delete_eq)

lemma example_config_no_token: "authToken example_config = None"
  by (simp add: example_config_def)

lemma example_upgrade_headers:
  "f_headers (upgrade_request example_config example_request targetUrl)
     = [(''host'', ''worker.example.org''), (''cookie'', ''sid=1''),
        (''x-internal-auth'', ''from-client'')]"
  by (simp add: upgrade_request_def example_config_def example_request_def falsy_def)

text \<open>A request that brings its own \<^verbatim>\<open>X-Internal-Auth\<close>, a cookie and a Host
  header.\<close>

theorem no_token_no_auth_header_witness:
  "authToken example_config = None
   \<and> f_headers (health_request example_config) = []
   \<and> f_headers (exec_request example_api example_config ''echo hi'' 20000)
       = [(''content-type'', ''application/json'')]
   \<and> map f_headers (ws_calls (proxySelfHostedWebSocket example_api silent_peer 7
                       example_config example_request None))
       = [[(''host'', ''worker.example.org''), (''cookie'', ''sid=1''),
           (''x-internal-auth'', ''from-client'')]]
   \<and> map f_headers (fst (proxySelfHostedRequest example_api silent_peer example_config
                             example_request))
       = [[(''cookie'', ''sid=1''), (''x-internal-auth'', ''from-client'')]]"
  using no_token_no_auth_header
    [of example_config example_api "''echo hi''" 20000 silent_peer 7 example_request None]
  by (simp add: example_relay_calls relay_request_def example_relay_headers
        ws_calls_resolved [OF example_ws_target] example_upgrade_headers
        example_config_no_token)

text \<open>
  The claim as stated (the relays forward the inbound headers unchanged) fails for the
  HTTP relay: the Host header of the inbound request is not in the upstream request.
\<close>

theorem relay_removes_host_header:
  "authToken example_config = None
   \<and> req_headers example_request
       = [(''host'', ''worker.example.org''), (''cookie'', ''sid=1''),
          (''x-internal-auth'', ''from-client'')]
   \<and> map f_headers (fst (proxySelfHostedRequest example_api silent_peer example_config
                             example_request))
       = [[(''cookie'', ''sid=1''), (''x-internal-auth'', ''from-client'')]]
   \<and> map f_headers (fst (proxySelfHostedRequest example_api silent_peer example_config
                             example_request))
       \<noteq> [req_headers example_request]"
  by (simp add: example_relay_calls relay_request_def example_relay_headers
        example_config_no_token)
     (simp add: example_request_def)

end
